theory Spec2Isabelle
  imports Main
begin

section \<open>Data model\<close>

text \<open>
  The provider lives in \<^verbatim>\<open>pkg/resources/container_image/handler.go\<close> (the revision with
  the \<^verbatim>\<open>Platform\<close> property). Go strings are byte strings and are modelled as
  \<^typ>\<open>string\<close>. A value of Go's \<^verbatim>\<open>interface{}\<close> in a property bag or in the returned
  data is one of the shapes JSON decoding produces, or the \<^verbatim>\<open>[]string\<close> the handler
  itself stores under \<^verbatim>\<open>Platforms\<close>. The handler reads no number, so a JSON number
  (a \<^verbatim>\<open>float64\<close> in Go) is kept as an integer.
\<close>

datatype iface =
    IString string
  | IStrings "string list"
  | INumber int
  | IBool bool
  | IList "iface list"
  | INil

text \<open>The fields of \<^verbatim>\<open>cfn.Event\<close> that the handler reads.\<close>

record cfn_Event =
  RequestType :: string
  ResourceType :: string
  PhysicalResourceID :: string
  ResourceProperties :: "string \<rightharpoonup> iface"

definition RequestCreate :: string where "RequestCreate = ''Create''"
definition RequestUpdate :: string where "RequestUpdate = ''Update''"
definition RequestDelete :: string where "RequestDelete = ''Delete''"

text \<open>\<^verbatim>\<open>v1.Platform\<close> of go-containerregistry.\<close>

record v1_Platform =
  Architecture :: string
  OS :: string
  OSVersion :: string
  OSFeatures :: "string list"
  Variant :: string
  Features :: "string list"

text \<open>
  \<^verbatim>\<open>resourceProperties\<close>. \<^verbatim>\<open>Source\<close> and \<^verbatim>\<open>Target\<close> are \<^verbatim>\<open>name.Reference\<close> values of
  the registry library, kept abstract as the type \<open>'n\<close>; \<^verbatim>\<open>Platform\<close> is a pointer, and
  \<^verbatim>\<open>nil\<close> (the value for \<^verbatim>\<open>"all"\<close>) is \<open>None\<close>.
\<close>

record 'n resourceProperties =
  Source :: 'n
  SourceTag :: string
  SourceDigest :: string
  SourceName :: string
  Platform :: "v1_Platform option"
  Target :: 'n
  Region :: string
  AccountID :: string
  RepositoryName :: string

text \<open>
  Every \<^verbatim>\<open>fmt.Errorf\<close> of the handler is a constructor carrying the values that are
  formatted into the message; an error of a library that is returned unchanged is
  \<open>LibraryError\<close> with the library's message.
\<close>

datatype error =
    ImageReferenceInvalid string string
  | ImageReferenceMissing
  | LibraryError string
  | ReferenceRegexpNoMatch string
  | DigestReferenceParseFailed string string string
  | DigestReferenceNameFailed string string
  | InvalidRepositoryArn string
  | RepositoryArnMissing
  | InvalidPlatformFormat string
  | CreatePullerFailed string
  | CreatePusherFailed string
  | GetDescriptorFailed string
  | PushDescriptorFailed string
  | PlatformImageFailed string
  | PushImageFailed string
  | NoAuthorizationData
  | TokenPartsMismatch nat
  | UnsupportedRequestType string
  | UnsupportedResourceType string

function show_nat :: "nat \<Rightarrow> string" where
  "show_nat n =
     (if n < 10 then [char_of (48 + n)]
      else show_nat (n div 10) @ [char_of (48 + n mod 10)])"
  by pat_completeness auto
termination
  by (relation "measure id") auto

text \<open>The message of each error, as the format strings of the source give it.\<close>

fun Error :: "error \<Rightarrow> string" where
  "Error (ImageReferenceInvalid ref e) = ref @ '': '' @ e"
| "Error ImageReferenceMissing = ''ImageReference is missing or not a string''"
| "Error (LibraryError e) = e"
| "Error (ReferenceRegexpNoMatch ref) = ''reference.ReferenceRegexp failed to match '' @ ref"
| "Error (DigestReferenceParseFailed nm dg e) =
     ''failed to turn source reference into a digest reference '' @ nm @ ''@'' @ dg @ '', '' @ e"
| "Error (DigestReferenceNameFailed ref e) =
     ''failed to turn source reference into a digest reference '' @ ref @ '', '' @ e"
| "Error (InvalidRepositoryArn arn) = ''Invalid AWS ECR repository ARN: '' @ arn"
| "Error RepositoryArnMissing = ''RepositoryArn is missing or not a string''"
| "Error (InvalidPlatformFormat e) = ''invalid Platform format, '' @ e"
| "Error (CreatePullerFailed e) = ''failed to create puller for repository: '' @ e"
| "Error (CreatePusherFailed e) = ''failed to create pusher for repository: '' @ e"
| "Error (GetDescriptorFailed e) = ''failed to get descriptor for repository: '' @ e"
| "Error (PushDescriptorFailed e) = ''failed to push descriptor: '' @ e"
| "Error (PlatformImageFailed e) =
     ''failed to get the platform specific image from descriptor: '' @ e"
| "Error (PushImageFailed e) = ''failed to push image: '' @ e"
| "Error NoAuthorizationData = ''no authorization data was returned''"
| "Error (TokenPartsMismatch n) =
     ''token seperated by : contains '' @ show_nat n @ '' elements, not 2''"
| "Error (UnsupportedRequestType t) = ''unsupported request type: '' @ t"
| "Error (UnsupportedResourceType t) = ''unsupported resource type: '' @ t"

text \<open>\<^verbatim>\<open>authn.Basic\<close>, the credential for the target registry.\<close>

record authn_Basic =
  Username :: string
  Password :: string

section \<open>The libraries the handler calls\<close>

text \<open>
  The handler parses references with \<^verbatim>\<open>docker/distribution/reference\<close> (values of type
  \<open>'d\<close>) and with \<^verbatim>\<open>go-containerregistry/pkg/name\<close> (values of type \<open>'n\<close>), platforms with
  \<^verbatim>\<open>v1.ParsePlatform\<close>, and uses \<^verbatim>\<open>strings\<close> and \<^verbatim>\<open>encoding/base64\<close>. None of this is code
  of the repository: every function below is a parameter, and the theorems hold for
  whatever the libraries compute. A fallible function returns \<open>Inl\<close> with the message of
  its error; a regular-expression search returns the list of submatches, empty when
  there is no match (Go's \<^verbatim>\<open>nil\<close>).
\<close>

record ('d, 'n) libs =
  reference_Parse :: "string \<Rightarrow> string + 'd"
  reference_String :: "'d \<Rightarrow> string"
  reference_FamiliarString :: "'d \<Rightarrow> string"
  ReferenceRegexp_FindStringSubmatch :: "string \<Rightarrow> string list"
  name_ParseReference :: "string \<Rightarrow> string + 'n"
  name_String :: "'n \<Rightarrow> string"
  v1_ParsePlatform :: "string \<Rightarrow> string + v1_Platform"
  Platform_String :: "v1_Platform \<Rightarrow> string"
  strings_ToLower :: "string \<Rightarrow> string"
  strings_TrimSpace :: "string \<Rightarrow> string"
  base64_DecodeString :: "string \<Rightarrow> string + string"
  remote_NewPuller :: "v1_Platform option \<Rightarrow> string option"
  remote_NewPusher :: "authn_Basic \<Rightarrow> string option"

section \<open>The repository ARN pattern\<close>

text \<open>
  \<^verbatim>\<open>^arn:aws:ecr:([a-z\d-]+):(\d+):repository/([a-z][a-z\d-_/.]+)$\<close>

  The three character classes are written out. A class followed by a literal that is
  not in the class can only match the longest run of its characters, so the search is
  a left-to-right scan; the result is the whole match and the three groups.
\<close>

definition is_lower :: "char \<Rightarrow> bool" where
  "is_lower c = (c \<in> set ''abcdefghijklmnopqrstuvwxyz'')"

definition is_digit :: "char \<Rightarrow> bool" where
  "is_digit c = (c \<in> set ''0123456789'')"

definition is_region_char :: "char \<Rightarrow> bool" where
  "is_region_char c = (is_lower c \<or> is_digit c \<or> c = CHR ''-'')"

definition is_repository_char :: "char \<Rightarrow> bool" where
  "is_repository_char c = (is_lower c \<or> is_digit c \<or> c \<in> set ''-_/.'')"

definition strip_prefix :: "string \<Rightarrow> string \<Rightarrow> string option" where
  "strip_prefix p s = (if take (length p) s = p then Some (drop (length p) s) else None)"

definition ecrRepositoryArnPattern_FindStringSubmatch :: "string \<Rightarrow> string list" where
  "ecrRepositoryArnPattern_FindStringSubmatch arn =
     (case strip_prefix ''arn:aws:ecr:'' arn of
        None \<Rightarrow> []
      | Some r1 \<Rightarrow>
          let region = takeWhile is_region_char r1 in
          if region = [] then []
          else (case strip_prefix '':'' (dropWhile is_region_char r1) of
                  None \<Rightarrow> []
                | Some r2 \<Rightarrow>
                    let account = takeWhile is_digit r2 in
                    if account = [] then []
                    else (case strip_prefix '':repository/'' (dropWhile is_digit r2) of
                            None \<Rightarrow> []
                          | Some nm \<Rightarrow>
                              (case nm of
                                 [] \<Rightarrow> []
                               | c # rest \<Rightarrow>
                                   if is_lower c \<and> rest \<noteq> [] \<and> list_all is_repository_char rest
                                   then [arn, region, account, nm]
                                   else []))))"

section \<open>validate\<close>

text \<open>
  \<^verbatim>\<open>validate\<close> is one function in the source; its three blocks are named here. The
  first block (the \<^verbatim>\<open>ImageReference\<close> property, lines 44 to 86) yields the source
  reference and the tag, digest and name found by \<^verbatim>\<open>reference.ReferenceRegexp\<close>.
  A field is assigned \<^verbatim>\<open>parts[i]\<close> under the guard \<^verbatim>\<open>len(parts) > i\<close> and keeps the empty
  string otherwise: that is \<open>submatch parts i\<close>. A successful \<^verbatim>\<open>validate\<close> has assigned
  every field, so the record is built at the end, from the values of the three blocks.
\<close>

definition submatch :: "string list \<Rightarrow> nat \<Rightarrow> string" where
  "submatch parts i = (if length parts > i then parts ! i else [])"

definition validate_source ::
  "('d, 'n) libs \<Rightarrow> cfn_Event \<Rightarrow> error + ('n \<times> string \<times> string \<times> string)" where
  "validate_source L event =
     (case ResourceProperties event ''ImageReference'' of
        Some (IString ref) \<Rightarrow>
          (case reference_Parse L ref of
             Inl e \<Rightarrow> Inl (ImageReferenceInvalid ref e)
           | Inr imageReference \<Rightarrow>
               (case name_ParseReference L (reference_FamiliarString L imageReference) of
                  Inl e \<Rightarrow> Inl (LibraryError e)
                | Inr src \<Rightarrow>
                    let parts = ReferenceRegexp_FindStringSubmatch L
                                  (reference_String L imageReference) in
                    if length parts = 0
                    then Inl (ReferenceRegexpNoMatch (reference_String L imageReference))
                    else
                      let dg = submatch parts 3;
                          tg0 = submatch parts 2;
                          nm = submatch parts 1;
                          tg = (if dg = [] \<and> tg0 = [] then ''latest'' else tg0)
                      in if dg \<noteq> [] then
                           (case reference_Parse L (nm @ ''@'' @ dg) of
                              Inl e \<Rightarrow> Inl (DigestReferenceParseFailed nm dg e)
                            | Inr digestReference \<Rightarrow>
                                (case name_ParseReference L
                                        (reference_FamiliarString L digestReference) of
                                   Inl e \<Rightarrow> Inl (DigestReferenceNameFailed
                                                  (reference_String L digestReference) e)
                                 | Inr src' \<Rightarrow> Inr (src', tg, dg, nm)))
                         else Inr (src, tg, dg, nm)))
      | _ \<Rightarrow> Inl ImageReferenceMissing)"

text \<open>
  The second block (the \<^verbatim>\<open>RepositoryArn\<close> property, lines 88 to 118) composes the target
  reference from the groups of the ARN and the tag or, when there is no tag, the digest.
\<close>

definition validate_target ::
  "('d, 'n) libs \<Rightarrow> cfn_Event \<Rightarrow> string \<Rightarrow> string \<Rightarrow> error + ('n \<times> string \<times> string \<times> string)" where
  "validate_target L event tg dg =
     (case ResourceProperties event ''RepositoryArn'' of
        Some (IString arn) \<Rightarrow>
          let matches = ecrRepositoryArnPattern_FindStringSubmatch arn in
          if length matches \<noteq> 4 then Inl (InvalidRepositoryArn arn)
          else
            let region = matches ! 1;
                account = matches ! 2;
                repo = matches ! 3;
                reference =
                  (if tg \<noteq> []
                   then account @ ''.dkr.ecr.'' @ region @ ''.amazonaws.com/'' @ repo @ '':'' @ tg
                   else account @ ''.dkr.ecr.'' @ region @ ''.amazonaws.com/'' @ repo @ ''@'' @ dg)
            in (case name_ParseReference L reference of
                  Inl e \<Rightarrow> Inl (LibraryError e)
                | Inr tgt \<Rightarrow> Inr (tgt, region, account, repo))
      | _ \<Rightarrow> Inl RepositoryArnMissing)"

text \<open>The third block (the \<^verbatim>\<open>Platform\<close> property, lines 120 to 132).\<close>

definition default_platform :: v1_Platform where
  "default_platform =
     \<lparr>Architecture = ''amd64'', OS = ''linux'', OSVersion = [], OSFeatures = [],
      Variant = [], Features = []\<rparr>"

definition validate_platform ::
  "('d, 'n) libs \<Rightarrow> cfn_Event \<Rightarrow> error + v1_Platform option" where
  "validate_platform L event =
     (case ResourceProperties event ''Platform'' of
        Some (IString platform) \<Rightarrow>
          if strings_TrimSpace L (strings_ToLower L platform) = ''all'' then Inr None
          else (case v1_ParsePlatform L platform of
                  Inl e \<Rightarrow> Inl (InvalidPlatformFormat e)
                | Inr p \<Rightarrow> Inr (Some p))
      | _ \<Rightarrow> Inr (Some default_platform))"

definition validate :: "('d, 'n) libs \<Rightarrow> cfn_Event \<Rightarrow> error + 'n resourceProperties" where
  "validate L event =
     (case validate_source L event of
        Inl e \<Rightarrow> Inl e
      | Inr (src, tg, dg, nm) \<Rightarrow>
          (case validate_target L event tg dg of
             Inl e \<Rightarrow> Inl e
           | Inr (tgt, region, account, repo) \<Rightarrow>
               (case validate_platform L event of
                  Inl e \<Rightarrow> Inl e
                | Inr pf \<Rightarrow>
                    Inr \<lparr>Source = src, SourceTag = tg, SourceDigest = dg, SourceName = nm,
                         Platform = pf, Target = tgt, Region = region, AccountID = account,
                         RepositoryName = repo\<rparr>)))"

section \<open>The outside world\<close>

text \<open>
  What the registries and the ECR API answer. \<^verbatim>\<open>remote.Descriptor\<close> carries the digest
  of the fetched manifest and answers \<^verbatim>\<open>Image()\<close> and \<^verbatim>\<open>ImageIndex()\<close>; an image has a
  digest of its own; an index has a manifest whose entries may name a platform.
\<close>

record v1_Descriptor =
  Descriptor_Platform :: "v1_Platform option"

record v1_IndexManifest =
  Manifests :: "v1_Descriptor list"

record v1_ImageIndex =
  IndexManifest :: "string + v1_IndexManifest"

record v1_Image =
  Image_Digest :: string

record remote_Descriptor =
  Digest :: string
  Image :: "string + v1_Image"
  ImageIndex :: "string + v1_ImageIndex"

text \<open>What \<^verbatim>\<open>pusher.Push\<close> is given: the descriptor as fetched, or one image.\<close>

datatype taggable = TaggableDescriptor remote_Descriptor | TaggableImage v1_Image

fun taggable_digest :: "taggable \<Rightarrow> string" where
  "taggable_digest (TaggableDescriptor d) = Digest d"
| "taggable_digest (TaggableImage i) = Image_Digest i"

record ecr_AuthorizationData =
  AuthorizationToken :: "string option"

text \<open>
  One invocation asks each question at most once, so the answers of one invocation are
  a record of functions; two invocations may meet two different worlds. The puller is
  built with the platform option (\<^verbatim>\<open>remote.WithPlatform\<close>) when a platform is set, the
  pusher and \<^verbatim>\<open>remote.Delete\<close> with the credential.
\<close>

record 'n world =
  session_NewSessionWithOptions :: "string option"
  ecr_GetAuthorizationToken :: "string + ecr_AuthorizationData list"
  puller_Get :: "v1_Platform option \<Rightarrow> 'n \<Rightarrow> string + remote_Descriptor"
  pusher_Push :: "authn_Basic \<Rightarrow> 'n \<Rightarrow> taggable \<Rightarrow> string option"
  remote_Delete :: "authn_Basic \<Rightarrow> 'n \<Rightarrow> string option"

text \<open>
  The calls that leave the process, in the order made, and the lines logged. \<open>CallImage\<close>
  is \<^verbatim>\<open>descriptor.Image()\<close>, which asks the registry for the image of the platform when the
  descriptor is an index.
\<close>

datatype 'n call =
    CallGetAuthorizationToken
  | CallGet "v1_Platform option" 'n
  | CallImage
  | CallPush authn_Basic 'n taggable
  | CallDelete authn_Basic 'n
  | LogPrintf string

fun is_network :: "'n call \<Rightarrow> bool" where
  "is_network (LogPrintf _) = False"
| "is_network _ = True"

text \<open>The three results of a handler function, with the calls it made.\<close>

record 'n outcome =
  physicalResourceID :: string
  data :: "(string \<rightharpoonup> iface) option"
  err :: "error option"
  calls :: "'n call list"

text \<open>Reading one attribute of the returned data, as \<^verbatim>\<open>data["Digest"]\<close> does.\<close>

definition attribute :: "'n outcome \<Rightarrow> string \<Rightarrow> iface option" where
  "attribute r k = (case data r of None \<Rightarrow> None | Some d \<Rightarrow> d k)"

definition failed :: "error \<Rightarrow> 'n call list \<Rightarrow> 'n outcome" where
  "failed e cs = \<lparr>physicalResourceID = [], data = None, err = Some e, calls = cs\<rparr>"

section \<open>create, getPlatforms, delete\<close>

text \<open>
  \<^verbatim>\<open>getPlatforms\<close>: the loop appends the string of every manifest entry that has a
  platform; a descriptor that is no index, or whose manifest cannot be read, gives the
  empty list.
\<close>

fun getPlatforms_loop :: "('d, 'n) libs \<Rightarrow> v1_Descriptor list \<Rightarrow> string list \<Rightarrow> string list" where
  "getPlatforms_loop L [] platforms = platforms"
| "getPlatforms_loop L (manifest # rest) platforms =
     getPlatforms_loop L rest
       (case Descriptor_Platform manifest of
          Some p \<Rightarrow> platforms @ [Platform_String L p]
        | None \<Rightarrow> platforms)"

definition getPlatforms :: "('d, 'n) libs \<Rightarrow> remote_Descriptor \<Rightarrow> string list" where
  "getPlatforms L descriptor =
     (case ImageIndex descriptor of
        Inr index \<Rightarrow>
          (case IndexManifest index of
             Inr indexManifest \<Rightarrow> getPlatforms_loop L (Manifests indexManifest) []
           | Inl _ \<Rightarrow> [])
      | Inl _ \<Rightarrow> [])"

text \<open>
  Lines 169 to 183 of \<^verbatim>\<open>create\<close>: the push. Without a platform the descriptor is pushed
  as fetched; with one, the image is taken from the descriptor and pushed. The result is
  the error, or nothing, and the calls made.
\<close>

definition create_push ::
  "'n world \<Rightarrow> 'n resourceProperties \<Rightarrow> authn_Basic \<Rightarrow> remote_Descriptor \<Rightarrow>
   error option \<times> 'n call list" where
  "create_push W properties authenticator descriptor =
     (case Platform properties of
        None \<Rightarrow>
          (case pusher_Push W authenticator (Target properties) (TaggableDescriptor descriptor) of
             Some e \<Rightarrow> (Some (PushDescriptorFailed e),
                        [CallPush authenticator (Target properties) (TaggableDescriptor descriptor)])
           | None \<Rightarrow> (None,
                      [CallPush authenticator (Target properties) (TaggableDescriptor descriptor)]))
      | Some _ \<Rightarrow>
          (case Image descriptor of
             Inl e \<Rightarrow> (Some (PlatformImageFailed e), [CallImage])
           | Inr img \<Rightarrow>
               (case pusher_Push W authenticator (Target properties) (TaggableImage img) of
                  Some e \<Rightarrow> (Some (PushImageFailed e),
                             [CallImage,
                              CallPush authenticator (Target properties) (TaggableImage img)])
                | None \<Rightarrow> (None,
                           [CallImage,
                            CallPush authenticator (Target properties) (TaggableImage img)]))))"

text \<open>Lines 185 to 196: the platforms reported and the data returned.\<close>

definition create_data ::
  "('d, 'n) libs \<Rightarrow> 'n resourceProperties \<Rightarrow> remote_Descriptor \<Rightarrow> (string \<rightharpoonup> iface)" where
  "create_data L properties descriptor =
     (let platforms =
            (case Platform properties of
               Some p \<Rightarrow> [Platform_String L p]
             | None \<Rightarrow> getPlatforms L descriptor)
      in [''Digest'' \<mapsto> IString (Digest descriptor),
          ''ImageReference'' \<mapsto> IString (name_String L (Target properties)),
          ''Platforms'' \<mapsto> IStrings platforms])"

definition create :: "('d, 'n) libs \<Rightarrow> 'n world \<Rightarrow> cfn_Event \<Rightarrow> authn_Basic \<Rightarrow> 'n outcome" where
  "create L W event authenticator =
     (case validate L event of
        Inl e \<Rightarrow> failed e []
      | Inr properties \<Rightarrow>
          (case remote_NewPuller L (Platform properties) of
             Some e \<Rightarrow> failed (CreatePullerFailed e) []
           | None \<Rightarrow>
               (case remote_NewPusher L authenticator of
                  Some e \<Rightarrow> failed (CreatePusherFailed e) []
                | None \<Rightarrow>
                    (case puller_Get W (Platform properties) (Source properties) of
                       Inl e \<Rightarrow> failed (GetDescriptorFailed e)
                                  [CallGet (Platform properties) (Source properties)]
                     | Inr descriptor \<Rightarrow>
                         (case create_push W properties authenticator descriptor of
                            (Some e, cs) \<Rightarrow>
                              failed e (CallGet (Platform properties) (Source properties) # cs)
                          | (None, cs) \<Rightarrow>
                              \<lparr>physicalResourceID = name_String L (Target properties),
                               data = Some (create_data L properties descriptor),
                               err = None,
                               calls = CallGet (Platform properties) (Source properties) # cs\<rparr>)))))"

text \<open>
  \<^verbatim>\<open>delete\<close> never assigns its named results: it returns the empty string, no data and no
  error on every path.
\<close>

definition delete :: "('d, 'n) libs \<Rightarrow> 'n world \<Rightarrow> cfn_Event \<Rightarrow> authn_Basic \<Rightarrow> 'n outcome" where
  "delete L W event authenticator =
     (case name_ParseReference L (PhysicalResourceID event) of
        Inr imageReference \<Rightarrow>
          (case remote_Delete W authenticator imageReference of
             Some e \<Rightarrow>
               \<lparr>physicalResourceID = [], data = None, err = None,
                calls = [CallDelete authenticator imageReference,
                         LogPrintf (''ignoring failed delete of image '' @ PhysicalResourceID event
                                    @ '', '' @ e)]\<rparr>
           | None \<Rightarrow>
               \<lparr>physicalResourceID = [], data = None, err = None,
                calls = [CallDelete authenticator imageReference]\<rparr>)
      | Inl _ \<Rightarrow>
          \<lparr>physicalResourceID = [], data = None, err = None,
           calls = [LogPrintf (''ignoring invalid physical resource id ''
                               @ PhysicalResourceID event)]\<rparr>)"

section \<open>getAuthentication and Handler\<close>

text \<open>\<^verbatim>\<open>strings.Split\<close> with a one-byte separator.\<close>

fun strings_Split :: "string \<Rightarrow> char \<Rightarrow> string list" where
  "strings_Split [] sep = [[]]"
| "strings_Split (c # cs) sep =
     (if c = sep then [] # strings_Split cs sep
      else (case strings_Split cs sep of
              w # ws \<Rightarrow> (c # w) # ws
            | [] \<Rightarrow> [[c]]))"

definition getAuthentication :: "('d, 'n) libs \<Rightarrow> 'n world \<Rightarrow> error + authn_Basic" where
  "getAuthentication L W =
     (case ecr_GetAuthorizationToken W of
        Inl e \<Rightarrow> Inl (LibraryError e)
      | Inr authorizationData \<Rightarrow>
          (case authorizationData of
             [] \<Rightarrow> Inl NoAuthorizationData
           | first # _ \<Rightarrow>
               (case AuthorizationToken first of
                  None \<Rightarrow> Inl NoAuthorizationData
                | Some encoded \<Rightarrow>
                    (case base64_DecodeString L encoded of
                       Inl e \<Rightarrow> Inl (LibraryError e)
                     | Inr token \<Rightarrow>
                         (case strings_Split token CHR '':'' of
                            [u, p] \<Rightarrow> Inr \<lparr>Username = u, Password = p\<rparr>
                          | parts \<Rightarrow> Inl (TokenPartsMismatch (length parts)))))))"

definition Handler :: "('d, 'n) libs \<Rightarrow> 'n world \<Rightarrow> cfn_Event \<Rightarrow> 'n outcome" where
  "Handler L W event =
     (case session_NewSessionWithOptions W of
        Some e \<Rightarrow> failed (LibraryError e) []
      | None \<Rightarrow>
          (case getAuthentication L W of
             Inl e \<Rightarrow> failed e [CallGetAuthorizationToken]
           | Inr basicAuthentication \<Rightarrow>
               (let r =
                  (if ResourceType event = ''Custom::ContainerImage'' then
                     (if RequestType event = RequestCreate then
                        (let c = create L W event basicAuthentication
                         in if physicalResourceID c = []
                            then c\<lparr>physicalResourceID := ''create-failed''\<rparr>
                            else c)
                      else if RequestType event = RequestUpdate then
                        create L W event basicAuthentication
                      else if RequestType event = RequestDelete then
                        delete L W event basicAuthentication
                      else failed (UnsupportedRequestType (RequestType event)) [])
                   else failed (UnsupportedResourceType (ResourceType event)) [])
                in r\<lparr>calls := CallGetAuthorizationToken # calls r\<rparr>)))"

section \<open>An executable instance of the libraries\<close>

text \<open>
  To run the handler on concrete events the parameters are instantiated with functions
  that follow the libraries at the versions of \<^verbatim>\<open>go.mod\<close> (docker/distribution v2.8.2,
  go-containerregistry v0.15.2) on ASCII input. No general theorem below depends on
  this instance; it serves the scenarios and shows that the hypotheses of the general
  theorems can be met. Where the instance is narrower than a library this is said at
  the definition: lower-casing and trimming know ASCII only, the registry part of a
  name is not checked against RFC 3986, and the base64 decoder neither skips line
  breaks nor reports the position of an illegal byte.
\<close>

definition is_upper :: "char \<Rightarrow> bool" where
  "is_upper c = (c \<in> set ''ABCDEFGHIJKLMNOPQRSTUVWXYZ'')"

definition is_alnum_lower :: "char \<Rightarrow> bool" where
  "is_alnum_lower c = (is_lower c \<or> is_digit c)"

definition is_alpha :: "char \<Rightarrow> bool" where
  "is_alpha c = (is_lower c \<or> is_upper c)"

definition is_alnum :: "char \<Rightarrow> bool" where
  "is_alnum c = (is_alpha c \<or> is_digit c)"

definition is_word :: "char \<Rightarrow> bool" where
  "is_word c = (is_alnum c \<or> c = CHR ''_'')"

definition is_xdigit :: "char \<Rightarrow> bool" where
  "is_xdigit c = (is_digit c \<or> c \<in> set ''abcdefABCDEF'')"

definition is_lower_hex :: "char \<Rightarrow> bool" where
  "is_lower_hex c = (is_digit c \<or> c \<in> set ''abcdef'')"

fun ascii_lower_char :: "string \<Rightarrow> string \<Rightarrow> char \<Rightarrow> char" where
  "ascii_lower_char (u # us) (l # ls) c = (if c = u then l else ascii_lower_char us ls c)"
| "ascii_lower_char _ _ c = c"

definition ascii_ToLower :: "string \<Rightarrow> string" where
  "ascii_ToLower s =
     map (ascii_lower_char ''ABCDEFGHIJKLMNOPQRSTUVWXYZ'' ''abcdefghijklmnopqrstuvwxyz'') s"

definition is_space :: "char \<Rightarrow> bool" where
  "is_space c = (c \<in> {CHR '' '', CHR 0x09, CHR 0x0A, CHR 0x0B, CHR 0x0C, CHR 0x0D})"

definition ascii_TrimSpace :: "string \<Rightarrow> string" where
  "ascii_TrimSpace s = rev (dropWhile is_space (rev (dropWhile is_space s)))"

fun split_first :: "char \<Rightarrow> string \<Rightarrow> (string \<times> string) option" where
  "split_first sep [] = None"
| "split_first sep (c # cs) =
     (if c = sep then Some ([], cs)
      else (case split_first sep cs of
              None \<Rightarrow> None
            | Some (a, b) \<Rightarrow> Some (c # a, b)))"

definition split_last :: "char \<Rightarrow> string \<Rightarrow> (string \<times> string) option" where
  "split_last sep s =
     (case split_first sep (rev s) of
        None \<Rightarrow> None
      | Some (a, b) \<Rightarrow> Some (rev b, rev a))"

fun join :: "string \<Rightarrow> string list \<Rightarrow> string" where
  "join sep [] = []"
| "join sep [w] = w"
| "join sep (w # ws) = w @ sep @ join sep ws"

subsection \<open>The grammar of docker/distribution/reference\<close>

text \<open>
  A path component is \<^verbatim>\<open>[a-z0-9]+(?:(?:[._]|__|[-]*)[a-z0-9]+)*\<close>: runs of lower-case
  letters and digits, separated by one period, one or two underscores, or dashes.
\<close>

datatype pc_state = PcStart | PcAlnum | PcDot | PcUnder | PcUnder2 | PcDash

fun pc_step :: "pc_state \<Rightarrow> char \<Rightarrow> pc_state option" where
  "pc_step st c =
     (if is_alnum_lower c then Some PcAlnum
      else if c = CHR ''.'' \<and> st = PcAlnum then Some PcDot
      else if c = CHR ''_'' \<and> st = PcAlnum then Some PcUnder
      else if c = CHR ''_'' \<and> st = PcUnder then Some PcUnder2
      else if c = CHR ''-'' \<and> (st = PcAlnum \<or> st = PcDash) then Some PcDash
      else None)"

fun pc_run :: "pc_state \<Rightarrow> string \<Rightarrow> bool" where
  "pc_run st [] = (st = PcAlnum)"
| "pc_run st (c # cs) = (case pc_step st c of None \<Rightarrow> False | Some st' \<Rightarrow> pc_run st' cs)"

definition is_path_component :: "string \<Rightarrow> bool" where
  "is_path_component s = pc_run PcStart s"

text \<open>
  A domain is \<^verbatim>\<open>component(\.component)*(:[0-9]+)?\<close> with components of letters, digits
  and inner dashes.
\<close>

definition is_domain_component :: "string \<Rightarrow> bool" where
  "is_domain_component s =
     (s \<noteq> [] \<and> list_all (\<lambda>c. is_alnum c \<or> c = CHR ''-'') s \<and> is_alnum (hd s) \<and> is_alnum (last s))"

definition is_domain :: "string \<Rightarrow> bool" where
  "is_domain s =
     (case strings_Split s CHR '':'' of
        [host] \<Rightarrow> list_all is_domain_component (strings_Split host CHR ''.'')
      | [host, port] \<Rightarrow>
          list_all is_domain_component (strings_Split host CHR ''.'')
          \<and> port \<noteq> [] \<and> list_all is_digit port
      | _ \<Rightarrow> False)"

definition is_name :: "string \<Rightarrow> bool" where
  "is_name s =
     (case strings_Split s CHR ''/'' of
        [] \<Rightarrow> False
      | [c] \<Rightarrow> is_path_component c
      | c # rest \<Rightarrow> (is_domain c \<or> is_path_component c) \<and> list_all is_path_component rest)"

text \<open>A tag is \<^verbatim>\<open>[\w][\w.-]{0,127}\<close>.\<close>

definition is_tag :: "string \<Rightarrow> bool" where
  "is_tag s =
     (case s of
        [] \<Rightarrow> False
      | c # cs \<Rightarrow> is_word c \<and> list_all (\<lambda>c. is_word c \<or> c \<in> set ''.-'') cs \<and> length cs \<le> 127)"

text \<open>
  A digest is \<^verbatim>\<open>[A-Za-z][A-Za-z0-9]*(?:[-_+.][A-Za-z][A-Za-z0-9]*)*[:][[:xdigit:]]{32,}\<close>.
\<close>

fun algorithm_run :: "bool \<Rightarrow> string \<Rightarrow> bool" where
  "algorithm_run expect_letter [] = (\<not> expect_letter)"
| "algorithm_run expect_letter (c # cs) =
     (if expect_letter then is_alpha c \<and> algorithm_run False cs
      else if is_alnum c then algorithm_run False cs
      else c \<in> set ''-_+.'' \<and> algorithm_run True cs)"

definition is_digest :: "string \<Rightarrow> bool" where
  "is_digest s =
     (case split_first CHR '':'' s of
        None \<Rightarrow> False
      | Some (algorithm, hex) \<Rightarrow>
          algorithm_run True algorithm \<and> 32 \<le> length hex \<and> list_all is_xdigit hex)"

text \<open>
  \<^verbatim>\<open>ReferenceRegexp\<close> is \<^verbatim>\<open>^(name)(?::(tag))?(?:@(digest))?$\<close>. Neither a name nor a tag
  holds an \<^verbatim>\<open>@\<close>, and a colon inside a name is followed by a slash, so the digest starts
  after the first \<^verbatim>\<open>@\<close> and the tag after the last colon that no slash follows.
\<close>

definition std_ReferenceRegexp :: "string \<Rightarrow> string list" where
  "std_ReferenceRegexp s =
     (let (nt, dg) = (case split_first CHR ''@'' s of
                        None \<Rightarrow> (s, None)
                      | Some (a, b) \<Rightarrow> (a, Some b));
          (nm, tg) = (case split_last CHR '':'' nt of
                        None \<Rightarrow> (nt, None)
                      | Some (a, b) \<Rightarrow> if CHR ''/'' \<in> set b then (nt, None) else (a, Some b))
      in if is_name nm
            \<and> (case tg of None \<Rightarrow> True | Some t \<Rightarrow> is_tag t)
            \<and> (case dg of None \<Rightarrow> True | Some d \<Rightarrow> is_digest d)
         then [s, nm, (case tg of None \<Rightarrow> [] | Some t \<Rightarrow> t), (case dg of None \<Rightarrow> [] | Some d \<Rightarrow> d)]
         else [])"

text \<open>
  \<^verbatim>\<open>digest.Parse\<close> accepts the algorithms sha256, sha384 and sha512 with a lower-case hex
  value of the algorithm's length.
\<close>

definition digest_Parse :: "string \<Rightarrow> string option" where
  "digest_Parse s =
     (case split_first CHR '':'' s of
        None \<Rightarrow> Some ''invalid checksum digest format''
      | Some (algorithm, hex) \<Rightarrow>
          (case map_of [(''sha256'', 64), (''sha384'', 96), (''sha512'', 128::nat)] algorithm of
             None \<Rightarrow> Some ''unsupported digest algorithm''
           | Some n \<Rightarrow>
               if length hex \<noteq> n then Some ''invalid checksum digest length''
               else if list_all is_lower_hex hex then None
               else Some ''invalid checksum digest format''))"

text \<open>A parsed \<^verbatim>\<open>reference.Reference\<close>: name, tag and digest.\<close>

datatype dref = DRef string string string

definition std_reference_Parse :: "string \<Rightarrow> string + dref" where
  "std_reference_Parse s =
     (let m = std_ReferenceRegexp s in
      if m = [] then
        (if s = [] then Inl ''repository name must have at least one component''
         else if std_ReferenceRegexp (ascii_ToLower s) \<noteq> []
         then Inl ''repository name must be lowercase''
         else Inl ''invalid reference format'')
      else if length (m ! 1) > 255
      then Inl ''repository name must not be more than 255 characters''
      else if m ! 3 \<noteq> [] then
        (case digest_Parse (m ! 3) of
           Some e \<Rightarrow> Inl e
         | None \<Rightarrow> Inr (DRef (m ! 1) (m ! 2) (m ! 3)))
      else Inr (DRef (m ! 1) (m ! 2) (m ! 3)))"

definition dref_suffix :: "string \<Rightarrow> string \<Rightarrow> string" where
  "dref_suffix tg dg = (if tg = [] then [] else '':'' @ tg) @ (if dg = [] then [] else ''@'' @ dg)"

fun std_reference_String :: "dref \<Rightarrow> string" where
  "std_reference_String (DRef nm tg dg) = nm @ dref_suffix tg dg"

text \<open>
  The familiar form drops the domain \<^verbatim>\<open>docker.io\<close> and, for an official image, the
  \<^verbatim>\<open>library/\<close> prefix. The domain of a name is its first component when more follow
  and it has the shape of a domain.
\<close>

definition familiarizeName :: "string \<Rightarrow> string" where
  "familiarizeName nm =
     (case strings_Split nm CHR ''/'' of
        c # rest \<Rightarrow>
          if rest \<noteq> [] \<and> is_domain c \<and> c = ''docker.io''
          then (case rest of
                  [l, r] \<Rightarrow> if l = ''library'' then r else join ''/'' rest
                | _ \<Rightarrow> join ''/'' rest)
          else nm
      | [] \<Rightarrow> nm)"

fun std_reference_FamiliarString :: "dref \<Rightarrow> string" where
  "std_reference_FamiliarString (DRef nm tg dg) = familiarizeName nm @ dref_suffix tg dg"

subsection \<open>References of go-containerregistry/pkg/name\<close>

text \<open>
  A \<^verbatim>\<open>name.Tag\<close> holds registry, repository and tag; a \<^verbatim>\<open>name.Digest\<close> holds registry,
  repository, digest and the string it was parsed from. The registry is the part before
  the first slash when that part holds a period or a colon; the RFC 3986 check of the
  registry is not reproduced.
\<close>

datatype nref = NTag string string string | NDigest string string string string

definition checkElement :: "string \<Rightarrow> string \<Rightarrow> nat \<Rightarrow> nat \<Rightarrow> bool" where
  "checkElement element allowed minRunes maxRunes =
     (minRunes \<le> length element \<and> length element \<le> maxRunes
      \<and> list_all (\<lambda>c. c \<in> set allowed) element)"

definition checkTag :: "string \<Rightarrow> bool" where
  "checkTag tg =
     checkElement tg
       ''abcdefghijklmnopqrstuvwxyz0123456789ABCDEFGHIJKLMNOPQRSTUVWXYZ_-.'' 1 128"

definition checkRepository :: "string \<Rightarrow> bool" where
  "checkRepository repo =
     checkElement repo ''abcdefghijklmnopqrstuvwxyz0123456789_-./'' 2 255"

definition NewRegistry :: "string \<Rightarrow> string" where
  "NewRegistry nm = (if nm = [] \<or> nm = ''docker.io'' then ''index.docker.io'' else nm)"

definition NewRepository :: "string \<Rightarrow> (string \<times> string) option" where
  "NewRepository nm =
     (if nm = [] then None
      else
        let (registry, repo) =
              (case split_first CHR ''/'' nm of
                 Some (a, b) \<Rightarrow>
                   if CHR ''.'' \<in> set a \<or> CHR '':'' \<in> set a then (a, b) else ([], nm)
               | None \<Rightarrow> ([], nm))
        in if checkRepository repo then Some (NewRegistry registry, repo) else None)"

definition Repository_Name :: "string \<Rightarrow> string \<Rightarrow> string" where
  "Repository_Name registry repo =
     registry @ ''/'' @
       (if CHR ''/'' \<notin> set repo \<and> registry = ''index.docker.io'' then ''library/'' @ repo
        else repo)"

definition NewTag :: "string \<Rightarrow> nref option" where
  "NewTag nm =
     (let (base, tg) =
            (case split_last CHR '':'' nm of
               Some (a, b) \<Rightarrow> if CHR ''/'' \<in> set b then (nm, []) else (a, b)
             | None \<Rightarrow> (nm, []))
      in if tg \<noteq> [] \<and> \<not> checkTag tg then None
         else (case NewRepository base of
                 None \<Rightarrow> None
               | Some (registry, repo) \<Rightarrow> Some (NTag registry repo tg)))"

definition NewDigest :: "string \<Rightarrow> nref option" where
  "NewDigest nm =
     (case strings_Split nm CHR ''@'' of
        [base, dig] \<Rightarrow>
          (case strip_prefix ''sha256:'' dig of
             None \<Rightarrow> None
           | Some hex \<Rightarrow>
               if length hex \<noteq> 64 \<or> \<not> list_all is_lower_hex hex then None
               else
                 let base' = (case NewTag base of
                                Some (NTag registry repo _) \<Rightarrow> Repository_Name registry repo
                              | _ \<Rightarrow> base)
                 in (case NewRepository base' of
                       None \<Rightarrow> None
                     | Some (registry, repo) \<Rightarrow> Some (NDigest registry repo dig nm)))
      | _ \<Rightarrow> None)"

definition std_name_ParseReference :: "string \<Rightarrow> string + nref" where
  "std_name_ParseReference s =
     (case NewTag s of
        Some t \<Rightarrow> Inr t
      | None \<Rightarrow>
          (case NewDigest s of
             Some d \<Rightarrow> Inr d
           | None \<Rightarrow> Inl (''could not parse reference: '' @ s)))"

fun std_name_String :: "nref \<Rightarrow> string" where
  "std_name_String (NTag registry repo tg) =
     Repository_Name registry repo @ '':'' @ (if tg = [] then ''latest'' else tg)"
| "std_name_String (NDigest registry repo dig original) = original"

subsection \<open>Platforms, base64 and the instance\<close>

definition std_ParsePlatform :: "string \<Rightarrow> string + v1_Platform" where
  "std_ParsePlatform s =
     (let parts = strings_Split (ascii_TrimSpace s) CHR '':'';
          osversion = (if length parts = 2 then submatch parts 1 else []);
          elems = strings_Split (submatch parts 0) CHR ''/''
      in if length elems > 3 then Inl (''too many slashes in platform spec: '' @ s)
         else Inr \<lparr>Architecture = submatch elems 1,
                   OS = submatch elems 0,
                   OSVersion = osversion,
                   OSFeatures = [],
                   Variant = submatch elems 2,
                   Features = []\<rparr>)"

definition std_Platform_String :: "v1_Platform \<Rightarrow> string" where
  "std_Platform_String p =
     (if OS p = [] then []
      else OS p
           @ (if Architecture p \<noteq> [] then ''/'' @ Architecture p else [])
           @ (if Variant p \<noteq> [] then ''/'' @ Variant p else [])
           @ (if OSVersion p \<noteq> [] then '':'' @ OSVersion p else []))"

fun index_of :: "char \<Rightarrow> string \<Rightarrow> nat option" where
  "index_of c [] = None"
| "index_of c (x # xs) = (if c = x then Some 0 else map_option Suc (index_of c xs))"

definition b64_value :: "char \<Rightarrow> nat option" where
  "b64_value c =
     index_of c ''ABCDEFGHIJKLMNOPQRSTUVWXYZabcdefghijklmnopqrstuvwxyz0123456789+/''"

definition bits6 :: "nat \<Rightarrow> bool list" where
  "bits6 n = map (\<lambda>d. odd (n div d)) [32, 16, 8, 4, 2, 1]"

fun bytes_of_bits :: "bool list \<Rightarrow> string" where
  "bytes_of_bits (b7 # b6 # b5 # b4 # b3 # b2 # b1 # b0 # rest) =
     Char b0 b1 b2 b3 b4 b5 b6 b7 # bytes_of_bits rest"
| "bytes_of_bits _ = []"

text \<open>
  Standard base64 with padding: every character stands for six bits, most significant
  first, and the bits are read back eight at a time.
\<close>

definition b64_decode :: "string \<Rightarrow> string option" where
  "b64_decode s =
     (let body = takeWhile (\<lambda>c. c \<noteq> CHR ''='') s;
          pad = dropWhile (\<lambda>c. c \<noteq> CHR ''='') s
      in if length s mod 4 \<noteq> 0 \<or> length pad > 2 \<or> \<not> list_all (\<lambda>c. c = CHR ''='') pad
         then None
         else map_option (\<lambda>vs. bytes_of_bits (concat (map bits6 vs)))
                (those (map b64_value body)))"

definition std_base64_DecodeString :: "string \<Rightarrow> string + string" where
  "std_base64_DecodeString s =
     (case b64_decode s of
        Some bytes \<Rightarrow> Inr bytes
      | None \<Rightarrow> Inl ''illegal base64 data'')"

definition stdlibs :: "(dref, nref) libs" where
  "stdlibs =
     \<lparr>reference_Parse = std_reference_Parse,
      reference_String = std_reference_String,
      reference_FamiliarString = std_reference_FamiliarString,
      ReferenceRegexp_FindStringSubmatch = std_ReferenceRegexp,
      name_ParseReference = std_name_ParseReference,
      name_String = std_name_String,
      v1_ParsePlatform = std_ParsePlatform,
      Platform_String = std_Platform_String,
      strings_ToLower = ascii_ToLower,
      strings_TrimSpace = ascii_TrimSpace,
      base64_DecodeString = std_base64_DecodeString,
      remote_NewPuller = (\<lambda>_. None),
      remote_NewPusher = (\<lambda>_. None)\<rparr>"

section \<open>Events and worlds of the scenarios\<close>

text \<open>
  The events are those of \<^verbatim>\<open>handler_test.go\<close> and of the documentation; the digests are
  the two used in \<^verbatim>\<open>Test_tagging_image\<close>.
\<close>

definition python_digest :: string where
  "python_digest = ''sha256:3d35a404db586d00a4ee5a65fd1496fe019ed4bdc068d436a67ce5b64b8b9659''"

definition other_digest :: string where
  "other_digest = ''sha256:2e94e493d6d5010d739ea473e44ea40f7c6e168bcb78e0c5a48c64f06aafbf5f''"

definition demo_arn :: string where
  "demo_arn = ''arn:aws:ecr:eu-central-1:444093529715:repository/cfn-container-image-provider-demo''"

definition container_image_event :: "string \<Rightarrow> (string \<rightharpoonup> iface) \<Rightarrow> cfn_Event" where
  "container_image_event request properties =
     \<lparr>RequestType = request, ResourceType = ''Custom::ContainerImage'',
      PhysicalResourceID = [], ResourceProperties = properties\<rparr>"

definition event_tag_and_digest :: cfn_Event where
  "event_tag_and_digest =
     container_image_event ''Create''
       [''ImageReference'' \<mapsto> IString (''python:3.9@'' @ python_digest),
        ''RepositoryArn'' \<mapsto> IString demo_arn]"

definition event_name_only :: cfn_Event where
  "event_name_only =
     container_image_event ''Create''
       [''ImageReference'' \<mapsto> IString ''python'',
        ''RepositoryArn'' \<mapsto> IString demo_arn]"

definition event_digest_only :: cfn_Event where
  "event_digest_only =
     container_image_event ''Create''
       [''ImageReference'' \<mapsto> IString (''docker.io/library/python@'' @ python_digest),
        ''RepositoryArn'' \<mapsto> IString demo_arn]"

definition event_tag_only :: "string \<Rightarrow> cfn_Event" where
  "event_tag_only request =
     container_image_event request
       [''ImageReference'' \<mapsto> IString ''python:3.7'',
        ''RepositoryArn'' \<mapsto> IString demo_arn]"

definition event_platform :: "iface \<Rightarrow> cfn_Event" where
  "event_platform platform =
     container_image_event ''Create''
       [''ImageReference'' \<mapsto> IString ''python:3.9'',
        ''Platform'' \<mapsto> platform,
        ''RepositoryArn'' \<mapsto> IString demo_arn]"

definition event_incorrect_arn :: "string \<Rightarrow> cfn_Event" where
  "event_incorrect_arn request =
     container_image_event request
       [''ImageReference'' \<mapsto> IString ''docker.io/library/python:3.9'',
        ''RepositoryArn'' \<mapsto>
          IString ''arn:a:ws:ecr:eu-ce:ntral-1:444093529715:repository/python'']"

definition event_incorrect_name :: "string \<Rightarrow> cfn_Event" where
  "event_incorrect_name request =
     container_image_event request
       [''ImageReference'' \<mapsto> IString ''https://docker.io/library/python:3.9'',
        ''RepositoryArn'' \<mapsto> IString ''arn:aws:ecr:eu-central-1:444093529715:repository/python'']"

definition event_missing_reference :: "string \<Rightarrow> cfn_Event" where
  "event_missing_reference request = container_image_event request Map.empty"

definition event_short_name_arn :: cfn_Event where
  "event_short_name_arn =
     container_image_event ''Create''
       [''ImageReference'' \<mapsto> IString ''docker.io/library/python:3.9'',
        ''RepositoryArn'' \<mapsto>
          IString ''arn:aws:ecr:eu-central-1:444093529715:repository/a'']"

definition event_delete :: "string \<Rightarrow> cfn_Event" where
  "event_delete physical_id =
     \<lparr>RequestType = ''Delete'', ResourceType = ''Custom::ContainerImage'',
      PhysicalResourceID = physical_id,
      ResourceProperties =
        [''ImageReference'' \<mapsto> IString ''python:3.9'',
         ''RepositoryArn'' \<mapsto> IString demo_arn]\<rparr>"

definition demo_target :: string where
  "demo_target =
     ''444093529715.dkr.ecr.eu-central-1.amazonaws.com/cfn-container-image-provider-demo:3.9''"

text \<open>
  A source that serves a manifest index for two platforms and one entry without a
  platform; the image that the index resolves to for one platform has a digest of its
  own.
\<close>

definition platform_of :: "string \<Rightarrow> string \<Rightarrow> string \<Rightarrow> v1_Platform" where
  "platform_of os arch variant =
     \<lparr>Architecture = arch, OS = os, OSVersion = [], OSFeatures = [],
      Variant = variant, Features = []\<rparr>"

definition python_index :: remote_Descriptor where
  "python_index =
     \<lparr>Digest = python_digest,
      Image = Inr \<lparr>Image_Digest = other_digest\<rparr>,
      ImageIndex = Inr \<lparr>IndexManifest = Inr \<lparr>Manifests =
        [\<lparr>Descriptor_Platform = Some (platform_of ''linux'' ''amd64'' [])\<rparr>,
         \<lparr>Descriptor_Platform = None\<rparr>,
         \<lparr>Descriptor_Platform = Some (platform_of ''linux'' ''arm64'' ''v8'')\<rparr>]\<rparr>\<rparr>\<rparr>"

text \<open>The token is the base64 of \<^verbatim>\<open>AWS:secret\<close>.\<close>

definition world_ok :: "nref world" where
  "world_ok =
     \<lparr>session_NewSessionWithOptions = None,
      ecr_GetAuthorizationToken = Inr [\<lparr>AuthorizationToken = Some ''QVdTOnNlY3JldA==''\<rparr>],
      puller_Get = (\<lambda>_ _. Inr python_index),
      pusher_Push = (\<lambda>_ _ _. None),
      remote_Delete = (\<lambda>_ _. None)\<rparr>"

text \<open>
  A source that serves a single image: the descriptor is no index, so \<^verbatim>\<open>ImageIndex()\<close>
  fails; and a source whose index has a manifest that cannot be read.
\<close>

definition python_image :: remote_Descriptor where
  "python_image =
     \<lparr>Digest = other_digest,
      Image = Inr \<lparr>Image_Digest = other_digest\<rparr>,
      ImageIndex = Inl ''unexpected media type for ImageIndex()''\<rparr>"

definition python_unreadable_index :: remote_Descriptor where
  "python_unreadable_index =
     \<lparr>Digest = python_digest,
      Image = Inr \<lparr>Image_Digest = other_digest\<rparr>,
      ImageIndex = Inr \<lparr>IndexManifest = Inl ''unexpected end of JSON input''\<rparr>\<rparr>"

definition world_single_image :: "nref world" where
  "world_single_image = world_ok\<lparr>puller_Get := (\<lambda>_ _. Inr python_image)\<rparr>"

definition world_unreadable_index :: "nref world" where
  "world_unreadable_index = world_ok\<lparr>puller_Get := (\<lambda>_ _. Inr python_unreadable_index)\<rparr>"

definition world_push_fails :: "nref world" where
  "world_push_fails = world_ok\<lparr>pusher_Push := (\<lambda>_ _ _. Some ''DENIED'')\<rparr>"

definition world_delete_fails :: "nref world" where
  "world_delete_fails = world_ok\<lparr>remote_Delete := (\<lambda>_ _. Some ''NAME_UNKNOWN'')\<rparr>"

definition world_other_credentials :: "nref world" where
  "world_other_credentials =
     world_ok\<lparr>ecr_GetAuthorizationToken :=
                Inr [\<lparr>AuthorizationToken = Some ''QVdTOnNlY3JldDEy''\<rparr>]\<rparr>"

definition world_without_credentials :: "nref world" where
  "world_without_credentials = world_ok\<lparr>ecr_GetAuthorizationToken := Inr []\<rparr>"

definition aws_secret :: authn_Basic where
  "aws_secret = \<lparr>Username = ''AWS'', Password = ''secret''\<rparr>"


section \<open>Facts about the repository ARN pattern\<close>

lemma strip_prefix_Some: "strip_prefix p s = Some r \<Longrightarrow> s = p @ r"
  by (auto simp: strip_prefix_def split: if_splits) (metis append_take_drop_id)

lemma colon_not_lower: "\<not> is_lower CHR '':''"
  by (simp add: is_lower_def)

lemma colon_not_repository_char: "\<not> is_repository_char CHR '':''"
  by (simp add: is_repository_char_def is_lower_def is_digit_def)

lemma arn_match_shape:
  assumes "ecrRepositoryArnPattern_FindStringSubmatch arn \<noteq> []"
  shows "\<exists>pre nm. arn = pre @ '':repository/'' @ nm \<and> CHR '':'' \<notin> set nm \<and> 2 \<le> length nm"
proof -
  from assms obtain r1 where r1: "strip_prefix ''arn:aws:ecr:'' arn = Some r1"
    by (auto simp: ecrRepositoryArnPattern_FindStringSubmatch_def split: option.splits)
  from assms r1 obtain r2 where r2: "strip_prefix '':'' (dropWhile is_region_char r1) = Some r2"
    by (auto simp: ecrRepositoryArnPattern_FindStringSubmatch_def Let_def split: option.splits if_splits)
  from assms r1 r2 obtain nm where
    nm: "strip_prefix '':repository/'' (dropWhile is_digit r2) = Some nm"
    by (auto simp: ecrRepositoryArnPattern_FindStringSubmatch_def Let_def split: option.splits if_splits)
  from assms r1 r2 nm obtain c rest where
    shape: "nm = c # rest" "is_lower c" "rest \<noteq> []" "list_all is_repository_char rest"
    by (auto simp: ecrRepositoryArnPattern_FindStringSubmatch_def Let_def
             split: option.splits if_splits list.splits)
  have a1: "arn = ''arn:aws:ecr:'' @ r1" using r1 by (rule strip_prefix_Some)
  have a2: "dropWhile is_region_char r1 = '':'' @ r2" using r2 by (rule strip_prefix_Some)
  have a3: "dropWhile is_digit r2 = '':repository/'' @ nm" using nm by (rule strip_prefix_Some)
  have "r2 = takeWhile is_digit r2 @ dropWhile is_digit r2" by simp
  with a3 have b2: "r2 = takeWhile is_digit r2 @ '':repository/'' @ nm" by simp
  have "r1 = takeWhile is_region_char r1 @ dropWhile is_region_char r1" by simp
  with a2 have b1: "r1 = takeWhile is_region_char r1 @ '':'' @ r2" by simp
  define pre where
    "pre = ''arn:aws:ecr:'' @ takeWhile is_region_char r1 @ '':'' @ takeWhile is_digit r2"
  have "arn = ''arn:aws:ecr:'' @ (takeWhile is_region_char r1 @ '':''
                @ (takeWhile is_digit r2 @ '':repository/'' @ nm))"
    using a1 b1 b2 by metis
  then have c1: "arn = pre @ '':repository/'' @ nm" by (simp add: pre_def)
  have c2: "CHR '':'' \<notin> set nm"
    using shape colon_not_lower colon_not_repository_char by (auto simp: list_all_iff)
  have c3: "2 \<le> length nm" using shape by (cases rest) auto
  from c1 c2 c3 show ?thesis by (intro exI conjI)
qed

lemma takeWhile_stop: "x \<notin> set ys \<Longrightarrow> takeWhile (\<lambda>c. c \<noteq> x) (ys @ x # zs) = ys"
  by (induction ys) auto

lemma suffix_after_last_colon:
  assumes "xs @ CHR '':'' # ys = xs' @ CHR '':'' # ys'"
    and "CHR '':'' \<notin> set ys" and "CHR '':'' \<notin> set ys'"
  shows "ys = ys'"
proof -
  have "takeWhile (\<lambda>c. c \<noteq> CHR '':'') (rev (xs @ CHR '':'' # ys)) = rev ys"
    using assms(2) by (simp add: takeWhile_stop)
  moreover have "takeWhile (\<lambda>c. c \<noteq> CHR '':'') (rev (xs' @ CHR '':'' # ys')) = rev ys'"
    using assms(3) by (simp add: takeWhile_stop)
  ultimately show ?thesis using assms(1) by (metis rev_is_rev_conv)
qed

lemma arn_single_char_no_match:
  "ecrRepositoryArnPattern_FindStringSubmatch (pre @ '':repository/'' @ [c]) = []"
proof (rule ccontr)
  let ?arn = "pre @ '':repository/'' @ [c]"
  assume "ecrRepositoryArnPattern_FindStringSubmatch ?arn \<noteq> []"
  then obtain pre' nm where eq: "?arn = pre' @ '':repository/'' @ nm"
    and nc: "CHR '':'' \<notin> set nm" and len: "2 \<le> length nm"
    using arn_match_shape by blast
  show False
  proof (cases "c = CHR '':''")
    case True
    from len have "nm \<noteq> []" by auto
    then have "last (pre' @ '':repository/'' @ nm) = last nm" by simp
    moreover have "last ?arn = c" by simp
    ultimately have "last nm = CHR '':''" using eq True by metis
    with \<open>nm \<noteq> []\<close> nc show False using last_in_set by metis
  next
    case False
    have "pre @ CHR '':'' # (''repository/'' @ [c]) = pre' @ CHR '':'' # (''repository/'' @ nm)"
      using eq by simp
    moreover have "CHR '':'' \<notin> set (''repository/'' @ [c])" using False by simp
    moreover have "CHR '':'' \<notin> set (''repository/'' @ nm)" using nc by simp
    ultimately have "''repository/'' @ [c] = ''repository/'' @ nm"
      by (rule suffix_after_last_colon)
    then have "nm = [c]" by simp
    with len show False by simp
  qed
qed

lemma arn_match_groups:
  assumes "ecrRepositoryArnPattern_FindStringSubmatch arn = [w, region, account, nm]"
  shows "\<exists>c rest. nm = c # rest \<and> is_lower c \<and> rest \<noteq> []
           \<and> list_all is_repository_char rest"
  using assms
  by (auto simp: ecrRepositoryArnPattern_FindStringSubmatch_def Let_def
           split: option.splits if_splits list.splits)

lemma validate_target_rejects:
  assumes "ResourceProperties event ''RepositoryArn'' = Some (IString arn)"
      and "ecrRepositoryArnPattern_FindStringSubmatch arn = []"
  shows "validate_target L event tg dg = Inl (InvalidRepositoryArn arn)"
  using assms by (simp add: validate_target_def)

section \<open>Facts about validate\<close>

lemma validate_stages:
  assumes "validate L event = Inr p"
  shows "validate_source L event = Inr (Source p, SourceTag p, SourceDigest p, SourceName p)
         \<and> validate_target L event (SourceTag p) (SourceDigest p)
             = Inr (Target p, Region p, AccountID p, RepositoryName p)
         \<and> validate_platform L event = Inr (Platform p)"
  using assms by (auto simp: validate_def split: sum.splits prod.splits)

lemma validate_source_fields:
  assumes "validate_source L event = Inr (src, tg, dg, nm)"
      and "ResourceProperties event ''ImageReference'' = Some (IString ref)"
      and "reference_Parse L ref = Inr r"
      and "parts = ReferenceRegexp_FindStringSubmatch L (reference_String L r)"
  shows "dg = submatch parts 3
         \<and> tg = (if submatch parts 3 = [] \<and> submatch parts 2 = [] then ''latest''
                 else submatch parts 2)
         \<and> nm = submatch parts 1"
  using assms
  by (auto simp: validate_source_def Let_def split: sum.splits if_splits)

lemma validate_target_tagged:
  assumes "validate_target L event tg dg = Inr (tgt, region, account, repo)" and "tg \<noteq> []"
  shows "name_ParseReference L
           (account @ ''.dkr.ecr.'' @ region @ ''.amazonaws.com/'' @ repo @ '':'' @ tg) = Inr tgt"
  using assms
  by (auto simp: validate_target_def Let_def
           split: option.splits iface.splits sum.splits if_splits)

lemma validate_target_digested:
  assumes "validate_target L event [] dg = Inr (tgt, region, account, repo)"
  shows "name_ParseReference L
           (account @ ''.dkr.ecr.'' @ region @ ''.amazonaws.com/'' @ repo @ ''@'' @ dg) = Inr tgt"
  using assms
  by (auto simp: validate_target_def Let_def
           split: option.splits iface.splits sum.splits if_splits)

lemma validate_source_cong:
  "ResourceProperties e1 ''ImageReference'' = ResourceProperties e2 ''ImageReference''
   \<Longrightarrow> validate_source L e1 = validate_source L e2"
  by (simp add: validate_source_def)

lemma validate_target_cong:
  "ResourceProperties e1 ''RepositoryArn'' = ResourceProperties e2 ''RepositoryArn''
   \<Longrightarrow> validate_target L e1 tg dg = validate_target L e2 tg dg"
  by (simp add: validate_target_def)

lemma validate_platform_cong:
  "ResourceProperties e1 ''Platform'' = ResourceProperties e2 ''Platform''
   \<Longrightarrow> validate_platform L e1 = validate_platform L e2"
  by (simp add: validate_platform_def)

lemma validate_cong:
  assumes "ResourceProperties e1 ''ImageReference'' = ResourceProperties e2 ''ImageReference''"
      and "ResourceProperties e1 ''RepositoryArn'' = ResourceProperties e2 ''RepositoryArn''"
      and "ResourceProperties e1 ''Platform'' = ResourceProperties e2 ''Platform''"
  shows "validate L e1 = validate L e2"
proof -
  have s: "validate_source L e1 = validate_source L e2"
    using assms(1) by (rule validate_source_cong)
  have t: "\<And>tg dg. validate_target L e1 tg dg = validate_target L e2 tg dg"
    using assms(2) by (rule validate_target_cong)
  have p: "validate_platform L e1 = validate_platform L e2"
    using assms(3) by (rule validate_platform_cong)
  show ?thesis unfolding validate_def s t p ..
qed

lemma validate_source_no_platform_error:
  "validate_source L event \<noteq> Inl (InvalidPlatformFormat m)"
  by (auto simp: validate_source_def Let_def
           split: option.splits iface.splits sum.splits if_splits)

lemma validate_target_no_platform_error:
  "validate_target L event tg dg \<noteq> Inl (InvalidPlatformFormat m)"
  by (auto simp: validate_target_def Let_def
           split: option.splits iface.splits sum.splits if_splits)

lemma validate_platform_non_string:
  assumes "ResourceProperties event ''Platform'' = Some v" and "\<forall>s. v \<noteq> IString s"
  shows "validate_platform L event = Inr (Some default_platform)"
  using assms by (cases v) (simp_all add: validate_platform_def)

lemma validate_platform_absent:
  assumes "ResourceProperties event ''Platform'' = None"
  shows "validate_platform L event = Inr (Some default_platform)"
  using assms by (simp add: validate_platform_def)

section \<open>Facts about create, delete and Handler\<close>

lemma create_success:
  assumes "err (create L W event a) = None"
  shows "\<exists>p d. validate L event = Inr p
           \<and> puller_Get W (Platform p) (Source p) = Inr d
           \<and> physicalResourceID (create L W event a) = name_String L (Target p)
           \<and> data (create L W event a) = Some (create_data L p d)"
  using assms
  by (auto simp: create_def failed_def split: sum.splits option.splits prod.splits)

lemma create_failure:
  assumes "err (create L W event a) = Some e"
  shows "physicalResourceID (create L W event a) = [] \<and> data (create L W event a) = None"
  using assms
  by (auto simp: create_def failed_def split: sum.splits option.splits prod.splits)

lemma create_validation_failure:
  assumes "validate L event = Inl e"
  shows "create L W event a = failed e []"
  using assms by (simp add: create_def)

lemma create_attribute:
  assumes "err (create L W event a) = None"
      and "validate L event = Inr p"
      and "puller_Get W (Platform p) (Source p) = Inr d"
  shows "attribute (create L W event a) k = create_data L p d k"
  using create_success [OF assms(1)] assms(2,3) by (auto simp: attribute_def)

lemma getPlatforms_loop_eq:
  "getPlatforms_loop L ms acc
     = acc @ map (Platform_String L) (List.map_filter Descriptor_Platform ms)"
  by (induction ms arbitrary: acc) (auto simp: List.map_filter_simps split: option.splits)

lemma getPlatforms_index:
  assumes "ImageIndex descriptor = Inr index" and "IndexManifest index = Inr im"
  shows "getPlatforms L descriptor
           = map (Platform_String L) (List.map_filter Descriptor_Platform (Manifests im))"
  using assms by (simp add: getPlatforms_def getPlatforms_loop_eq)

lemma delete_outcome:
  "err (delete L W event a) = None \<and> physicalResourceID (delete L W event a) = []
   \<and> data (delete L W event a) = None"
  by (simp add: delete_def split: sum.splits option.splits)

lemma request_types_distinct:
  "RequestCreate \<noteq> RequestUpdate" "RequestCreate \<noteq> RequestDelete"
  "RequestUpdate \<noteq> RequestDelete" "RequestUpdate \<noteq> RequestCreate"
  "RequestDelete \<noteq> RequestCreate" "RequestDelete \<noteq> RequestUpdate"
  by (simp_all add: RequestCreate_def RequestUpdate_def RequestDelete_def)

lemma Handler_create:
  assumes "ResourceType event = ''Custom::ContainerImage''"
      and "session_NewSessionWithOptions W = None"
      and "getAuthentication L W = Inr a"
      and "RequestType event = RequestCreate"
  shows "Handler L W event =
           (create L W event a)
             \<lparr>physicalResourceID :=
                (if physicalResourceID (create L W event a) = [] then ''create-failed''
                 else physicalResourceID (create L W event a)),
              calls := CallGetAuthorizationToken # calls (create L W event a)\<rparr>"
  using assms by (simp add: Handler_def Let_def)

lemma Handler_update:
  assumes "ResourceType event = ''Custom::ContainerImage''"
      and "session_NewSessionWithOptions W = None"
      and "getAuthentication L W = Inr a"
      and "RequestType event = RequestUpdate"
  shows "Handler L W event =
           (create L W event a)\<lparr>calls := CallGetAuthorizationToken # calls (create L W event a)\<rparr>"
  using assms by (simp add: Handler_def Let_def request_types_distinct)

lemma Handler_delete:
  assumes "ResourceType event = ''Custom::ContainerImage''"
      and "session_NewSessionWithOptions W = None"
      and "getAuthentication L W = Inr a"
      and "RequestType event = RequestDelete"
  shows "Handler L W event =
           (delete L W event a)\<lparr>calls := CallGetAuthorizationToken # calls (delete L W event a)\<rparr>"
  using assms by (simp add: Handler_def Let_def request_types_distinct)

lemma Handler_create_success:
  assumes "RequestType event = RequestCreate" and "err (Handler L W event) = None"
  shows "\<exists>a. err (create L W event a) = None
           \<and> physicalResourceID (Handler L W event)
               = (if physicalResourceID (create L W event a) = [] then ''create-failed''
                  else physicalResourceID (create L W event a))
           \<and> data (Handler L W event) = data (create L W event a)"
  using assms
  by (auto simp: Handler_def Let_def failed_def split: option.splits sum.splits if_splits)

section \<open>The target reference is named by the tag\<close>

text \<open>
  Claim C1. When the reference of the \<^verbatim>\<open>ImageReference\<close> property carries a tag and a
  digest (the second and third group of \<^verbatim>\<open>ReferenceRegexp\<close> are both non-empty),
  \<^verbatim>\<open>validate\<close> keeps both, and the target is parsed from the string
  \<^verbatim>\<open>{account}.dkr.ecr.{region}.amazonaws.com/{repository}:{tag}\<close>: the suffix is the tag, not
  the digest. A successful \<^verbatim>\<open>create\<close> returns the string of that target as the physical
  resource id. For the reference \<^verbatim>\<open>python:3.9@sha256:3d35...\<close> and the repository
  \<^verbatim>\<open>cfn-container-image-provider-demo\<close> of account 444093529715 in eu-central-1 the
  handler returns the id that ends in \<^verbatim>\<open>:3.9\<close>.
\<close>

theorem target_reference_uses_tag:
  "(validate L event = Inr properties \<longrightarrow>
    ResourceProperties event ''ImageReference'' = Some (IString ref) \<longrightarrow>
    reference_Parse L ref = Inr r \<longrightarrow>
    parts = ReferenceRegexp_FindStringSubmatch L (reference_String L r) \<longrightarrow>
    submatch parts 2 \<noteq> [] \<longrightarrow> submatch parts 3 \<noteq> [] \<longrightarrow>
      SourceTag properties = submatch parts 2
      \<and> SourceDigest properties = submatch parts 3
      \<and> name_ParseReference L
            (AccountID properties @ ''.dkr.ecr.'' @ Region properties @ ''.amazonaws.com/''
             @ RepositoryName properties @ '':'' @ submatch parts 2) = Inr (Target properties)
      \<and> (\<forall>W a. err (create L W event a) = None \<longrightarrow>
            physicalResourceID (create L W event a) = name_String L (Target properties)))
   \<and> physicalResourceID (Handler stdlibs world_ok event_tag_and_digest)
       = ''444093529715.dkr.ecr.eu-central-1.amazonaws.com/cfn-container-image-provider-demo:3.9''"
proof (intro conjI impI)
  assume v: "validate L event = Inr properties"
    and i: "ResourceProperties event ''ImageReference'' = Some (IString ref)"
    and r: "reference_Parse L ref = Inr r"
    and p: "parts = ReferenceRegexp_FindStringSubmatch L (reference_String L r)"
    and t: "submatch parts 2 \<noteq> []" and d: "submatch parts 3 \<noteq> []"
  note st = validate_stages [OF v]
  from st have src: "validate_source L event
      = Inr (Source properties, SourceTag properties, SourceDigest properties,
             SourceName properties)" by simp
  from validate_source_fields [OF src i r p] t d
  show tg: "SourceTag properties = submatch parts 2"
    and "SourceDigest properties = submatch parts 3" by auto
  from st have "validate_target L event (SourceTag properties) (SourceDigest properties)
      = Inr (Target properties, Region properties, AccountID properties,
             RepositoryName properties)" by simp
  moreover have "SourceTag properties \<noteq> []" using tg t by simp
  ultimately have "name_ParseReference L
      (AccountID properties @ ''.dkr.ecr.'' @ Region properties @ ''.amazonaws.com/''
       @ RepositoryName properties @ '':'' @ SourceTag properties) = Inr (Target properties)"
    by (rule validate_target_tagged)
  then show "name_ParseReference L
      (AccountID properties @ ''.dkr.ecr.'' @ Region properties @ ''.amazonaws.com/''
       @ RepositoryName properties @ '':'' @ submatch parts 2) = Inr (Target properties)"
    by (simp add: tg)
  show "\<forall>W a. err (create L W event a) = None \<longrightarrow>
          physicalResourceID (create L W event a) = name_String L (Target properties)"
  proof (intro allI impI)
    fix W a
    assume "err (create L W event a) = None"
    from create_success [OF this] v
    show "physicalResourceID (create L W event a) = name_String L (Target properties)"
      by auto
  qed
next
  show "physicalResourceID (Handler stdlibs world_ok event_tag_and_digest)
      = ''444093529715.dkr.ecr.eu-central-1.amazonaws.com/cfn-container-image-provider-demo:3.9''"
    by code_simp
qed

theorem target_reference_uses_tag_witness:
  "validate stdlibs event_tag_and_digest
     = Inr \<lparr>Source = NDigest ''index.docker.io'' ''library/python'' python_digest
                       (''python@'' @ python_digest),
            SourceTag = ''3.9'', SourceDigest = python_digest, SourceName = ''python'',
            Platform = Some default_platform,
            Target = NTag ''444093529715.dkr.ecr.eu-central-1.amazonaws.com''
                       ''cfn-container-image-provider-demo'' ''3.9'',
            Region = ''eu-central-1'', AccountID = ''444093529715'',
            RepositoryName = ''cfn-container-image-provider-demo''\<rparr>
   \<and> std_ReferenceRegexp (''python:3.9@'' @ python_digest)
       = [''python:3.9@'' @ python_digest, ''python'', ''3.9'', python_digest]
   \<and> std_name_ParseReference
         ''444093529715.dkr.ecr.eu-central-1.amazonaws.com/cfn-container-image-provider-demo:3.9''
       = Inr (NTag ''444093529715.dkr.ecr.eu-central-1.amazonaws.com''
                ''cfn-container-image-provider-demo'' ''3.9'')
   \<and> err (create stdlibs world_ok event_tag_and_digest aws_secret) = None
   \<and> physicalResourceID (create stdlibs world_ok event_tag_and_digest aws_secret)
       = ''444093529715.dkr.ecr.eu-central-1.amazonaws.com/cfn-container-image-provider-demo:3.9''"
proof -
  have h1: "validate stdlibs event_tag_and_digest
     = Inr \<lparr>Source = NDigest ''index.docker.io'' ''library/python'' python_digest
                       (''python@'' @ python_digest),
            SourceTag = ''3.9'', SourceDigest = python_digest, SourceName = ''python'',
            Platform = Some default_platform,
            Target = NTag ''444093529715.dkr.ecr.eu-central-1.amazonaws.com''
                       ''cfn-container-image-provider-demo'' ''3.9'',
            Region = ''eu-central-1'', AccountID = ''444093529715'',
            RepositoryName = ''cfn-container-image-provider-demo''\<rparr>"
    by code_simp
  have h2: "ResourceProperties event_tag_and_digest ''ImageReference''
              = Some (IString (''python:3.9@'' @ python_digest))"
    by code_simp
  have h3: "reference_Parse stdlibs (''python:3.9@'' @ python_digest)
              = Inr (DRef ''python'' ''3.9'' python_digest)"
    by code_simp
  have h4: "ReferenceRegexp_FindStringSubmatch stdlibs
              (reference_String stdlibs (DRef ''python'' ''3.9'' python_digest))
            = [''python:3.9@'' @ python_digest, ''python'', ''3.9'', python_digest]"
    by code_simp
  have h5: "submatch [''python:3.9@'' @ python_digest, ''python'', ''3.9'', python_digest] 2
              \<noteq> []"
    by code_simp
  have h6: "submatch [''python:3.9@'' @ python_digest, ''python'', ''3.9'', python_digest] 3
              \<noteq> []"
    by code_simp
  have h7: "std_ReferenceRegexp (''python:3.9@'' @ python_digest)
       = [''python:3.9@'' @ python_digest, ''python'', ''3.9'', python_digest]"
    by code_simp
  have h8: "err (create stdlibs world_ok event_tag_and_digest aws_secret) = None"
    by code_simp
  have h9: "name_String stdlibs
              (NTag ''444093529715.dkr.ecr.eu-central-1.amazonaws.com''
                 ''cfn-container-image-provider-demo'' ''3.9'')
            = ''444093529715.dkr.ecr.eu-central-1.amazonaws.com/cfn-container-image-provider-demo:3.9''"
    by code_simp
  have h10: "name_ParseReference stdlibs = std_name_ParseReference"
    by (simp add: stdlibs_def)
  note t = target_reference_uses_tag [THEN conjunct1, rule_format, OF h1 h2 h3 h4 [symmetric] h5 h6]
  from t have t3: "name_ParseReference stdlibs
      (''444093529715'' @ ''.dkr.ecr.'' @ ''eu-central-1'' @ ''.amazonaws.com/''
       @ ''cfn-container-image-provider-demo'' @ '':'' @ ''3.9'')
      = Inr (NTag ''444093529715.dkr.ecr.eu-central-1.amazonaws.com''
                ''cfn-container-image-provider-demo'' ''3.9'')"
    by (simp add: submatch_def)
  then have t3': "std_name_ParseReference
         ''444093529715.dkr.ecr.eu-central-1.amazonaws.com/cfn-container-image-provider-demo:3.9''
       = Inr (NTag ''444093529715.dkr.ecr.eu-central-1.amazonaws.com''
                ''cfn-container-image-provider-demo'' ''3.9'')"
    by (simp add: h10)
  from t h8 have "physicalResourceID (create stdlibs world_ok event_tag_and_digest aws_secret)
      = name_String stdlibs
          (NTag ''444093529715.dkr.ecr.eu-central-1.amazonaws.com''
             ''cfn-container-image-provider-demo'' ''3.9'')"
    by simp
  with h9 have t4: "physicalResourceID (create stdlibs world_ok event_tag_and_digest aws_secret)
       = ''444093529715.dkr.ecr.eu-central-1.amazonaws.com/cfn-container-image-provider-demo:3.9''"
    by simp
  from h1 h7 t3' h8 t4 show ?thesis by (intro conjI)
qed

section \<open>Validation and the network\<close>

text \<open>
  Claim C2 does not hold as stated. \<^verbatim>\<open>Handler\<close> asks ECR for the authorization token
  before it dispatches, and \<^verbatim>\<open>validate\<close> runs inside \<^verbatim>\<open>create\<close>: for the event of the test
  \<^verbatim>\<open>IncorrectARN\<close> the invalid-ARN error comes back after one network call.
\<close>

theorem validation_after_credential_request_counterexample:
  "validate stdlibs (event_incorrect_arn ''Create'')
     = Inl (InvalidRepositoryArn ''arn:a:ws:ecr:eu-ce:ntral-1:444093529715:repository/python'')
   \<and> err (Handler stdlibs world_ok (event_incorrect_arn ''Create''))
     = Some (InvalidRepositoryArn ''arn:a:ws:ecr:eu-ce:ntral-1:444093529715:repository/python'')
   \<and> calls (Handler stdlibs world_ok (event_incorrect_arn ''Create''))
     = [CallGetAuthorizationToken]
   \<and> list_ex is_network (calls (Handler stdlibs world_ok (event_incorrect_arn ''Create'')))"
  by code_simp

text \<open>
  Claim C2, amended. For a Create or Update request whose properties \<^verbatim>\<open>validate\<close>
  rejects, \<^verbatim>\<open>create\<close> returns the validation error without any call: no fetch, push or
  delete reaches a registry. Of the whole invocation the only call that can precede the
  error is the request for the authorization token, and when the session and the
  credential are obtained the handler returns the validation error after exactly that
  call.
\<close>

theorem validation_error_precedes_registry_calls:
  assumes "validate L event = Inl e"
      and "RequestType event = RequestCreate \<or> RequestType event = RequestUpdate"
  shows "create L W event a = failed e []
         \<and> (calls (Handler L W event) = []
            \<or> calls (Handler L W event) = [CallGetAuthorizationToken])
         \<and> (ResourceType event = ''Custom::ContainerImage'' \<longrightarrow>
            session_NewSessionWithOptions W = None \<longrightarrow>
            getAuthentication L W = Inr a \<longrightarrow>
              err (Handler L W event) = Some e
              \<and> calls (Handler L W event) = [CallGetAuthorizationToken])"
proof -
  have c: "\<And>b. create L W event b = failed e []"
    using assms(1) by (rule create_validation_failure)
  have "calls (Handler L W event) = []
        \<or> calls (Handler L W event) = [CallGetAuthorizationToken]"
    using assms(2)
    by (auto simp: Handler_def Let_def c failed_def request_types_distinct
             split: option.splits sum.splits)
  moreover have "ResourceType event = ''Custom::ContainerImage'' \<longrightarrow>
            session_NewSessionWithOptions W = None \<longrightarrow>
            getAuthentication L W = Inr a \<longrightarrow>
              err (Handler L W event) = Some e
              \<and> calls (Handler L W event) = [CallGetAuthorizationToken]"
    using assms(2)
    by (auto simp: Handler_def Let_def c failed_def request_types_distinct)
  ultimately show ?thesis using c by simp
qed

theorem validation_error_precedes_registry_calls_witness:
  "validate stdlibs (event_missing_reference ''Create'') = Inl ImageReferenceMissing
   \<and> create stdlibs world_ok (event_missing_reference ''Create'') aws_secret
       = failed ImageReferenceMissing []
   \<and> calls (Handler stdlibs world_ok (event_missing_reference ''Create''))
       = [CallGetAuthorizationToken]
   \<and> validate stdlibs (event_incorrect_name ''Create'')
       = Inl (ImageReferenceInvalid ''https://docker.io/library/python:3.9''
                ''invalid reference format'')
   \<and> create stdlibs world_ok (event_incorrect_name ''Create'') aws_secret
       = failed (ImageReferenceInvalid ''https://docker.io/library/python:3.9''
                   ''invalid reference format'') []
   \<and> calls (Handler stdlibs world_ok (event_incorrect_name ''Create''))
       = [CallGetAuthorizationToken]
   \<and> validate stdlibs (event_incorrect_arn ''Update'')
       = Inl (InvalidRepositoryArn ''arn:a:ws:ecr:eu-ce:ntral-1:444093529715:repository/python'')
   \<and> (RequestType (event_incorrect_arn ''Update'') = RequestCreate
       \<or> RequestType (event_incorrect_arn ''Update'') = RequestUpdate)
   \<and> ResourceType (event_incorrect_arn ''Update'') = ''Custom::ContainerImage''
   \<and> session_NewSessionWithOptions world_ok = None
   \<and> getAuthentication stdlibs world_ok = Inr aws_secret
   \<and> create stdlibs world_ok (event_incorrect_arn ''Update'') aws_secret
       = failed (InvalidRepositoryArn
                   ''arn:a:ws:ecr:eu-ce:ntral-1:444093529715:repository/python'') []
   \<and> err (Handler stdlibs world_ok (event_incorrect_arn ''Update''))
       = Some (InvalidRepositoryArn
                 ''arn:a:ws:ecr:eu-ce:ntral-1:444093529715:repository/python'')
   \<and> calls (Handler stdlibs world_ok (event_incorrect_arn ''Update''))
       = [CallGetAuthorizationToken]
   \<and> validate stdlibs (event_platform (IString ''linux/arm64/v8/extra''))
       = Inl (InvalidPlatformFormat
                ''too many slashes in platform spec: linux/arm64/v8/extra'')
   \<and> create stdlibs world_ok (event_platform (IString ''linux/arm64/v8/extra'')) aws_secret
       = failed (InvalidPlatformFormat
                   ''too many slashes in platform spec: linux/arm64/v8/extra'') []
   \<and> calls (Handler stdlibs world_ok (event_platform (IString ''linux/arm64/v8/extra'')))
       = [CallGetAuthorizationToken]"
proof -
  have s: "session_NewSessionWithOptions world_ok = None" by code_simp
  have g: "getAuthentication stdlibs world_ok = Inr aws_secret" by code_simp
  have a1: "validate stdlibs (event_missing_reference ''Create'') = Inl ImageReferenceMissing"
    by code_simp
  have a2: "RequestType (event_missing_reference ''Create'') = RequestCreate
            \<or> RequestType (event_missing_reference ''Create'') = RequestUpdate"
    by code_simp
  have a3: "ResourceType (event_missing_reference ''Create'') = ''Custom::ContainerImage''"
    by code_simp
  note a = validation_error_precedes_registry_calls [OF a1 a2, of world_ok aws_secret]
  from a have ac: "create stdlibs world_ok (event_missing_reference ''Create'') aws_secret
                     = failed ImageReferenceMissing []"
    by (rule conjunct1)
  from a a3 s g have ah: "calls (Handler stdlibs world_ok (event_missing_reference ''Create''))
                            = [CallGetAuthorizationToken]"
    by blast
  have b1: "validate stdlibs (event_incorrect_name ''Create'')
       = Inl (ImageReferenceInvalid ''https://docker.io/library/python:3.9''
                ''invalid reference format'')"
    by code_simp
  have b2: "RequestType (event_incorrect_name ''Create'') = RequestCreate
            \<or> RequestType (event_incorrect_name ''Create'') = RequestUpdate"
    by code_simp
  have b3: "ResourceType (event_incorrect_name ''Create'') = ''Custom::ContainerImage''"
    by code_simp
  note b = validation_error_precedes_registry_calls [OF b1 b2, of world_ok aws_secret]
  from b have bc: "create stdlibs world_ok (event_incorrect_name ''Create'') aws_secret
       = failed (ImageReferenceInvalid ''https://docker.io/library/python:3.9''
                   ''invalid reference format'') []"
    by (rule conjunct1)
  from b b3 s g have bh: "calls (Handler stdlibs world_ok (event_incorrect_name ''Create''))
                            = [CallGetAuthorizationToken]"
    by blast
  have c1: "validate stdlibs (event_incorrect_arn ''Update'')
     = Inl (InvalidRepositoryArn ''arn:a:ws:ecr:eu-ce:ntral-1:444093529715:repository/python'')"
    by code_simp
  have c2: "RequestType (event_incorrect_arn ''Update'') = RequestCreate
            \<or> RequestType (event_incorrect_arn ''Update'') = RequestUpdate"
    by code_simp
  have c3: "ResourceType (event_incorrect_arn ''Update'') = ''Custom::ContainerImage''"
    by code_simp
  note c = validation_error_precedes_registry_calls [OF c1 c2, of world_ok aws_secret]
  from c have cc: "create stdlibs world_ok (event_incorrect_arn ''Update'') aws_secret
       = failed (InvalidRepositoryArn
                   ''arn:a:ws:ecr:eu-ce:ntral-1:444093529715:repository/python'') []"
    by (rule conjunct1)
  from c c3 s g have ch: "err (Handler stdlibs world_ok (event_incorrect_arn ''Update''))
       = Some (InvalidRepositoryArn
                 ''arn:a:ws:ecr:eu-ce:ntral-1:444093529715:repository/python'')
     \<and> calls (Handler stdlibs world_ok (event_incorrect_arn ''Update''))
       = [CallGetAuthorizationToken]"
    by blast
  have d1: "validate stdlibs (event_platform (IString ''linux/arm64/v8/extra''))
       = Inl (InvalidPlatformFormat
                ''too many slashes in platform spec: linux/arm64/v8/extra'')"
    by code_simp
  have d2: "RequestType (event_platform (IString ''linux/arm64/v8/extra'')) = RequestCreate
            \<or> RequestType (event_platform (IString ''linux/arm64/v8/extra'')) = RequestUpdate"
    by code_simp
  have d3: "ResourceType (event_platform (IString ''linux/arm64/v8/extra''))
              = ''Custom::ContainerImage''"
    by code_simp
  note d = validation_error_precedes_registry_calls [OF d1 d2, of world_ok aws_secret]
  from d have dc: "create stdlibs world_ok (event_platform (IString ''linux/arm64/v8/extra''))
                     aws_secret
       = failed (InvalidPlatformFormat
                   ''too many slashes in platform spec: linux/arm64/v8/extra'') []"
    by (rule conjunct1)
  from d d3 s g
  have dh: "calls (Handler stdlibs world_ok (event_platform (IString ''linux/arm64/v8/extra'')))
              = [CallGetAuthorizationToken]"
    by blast
  from a1 ac ah b1 bc bh c1 c2 c3 s g cc ch d1 dc dh show ?thesis by (intro conjI) auto
qed

section \<open>Delete\<close>

text \<open>
  Claim C3 does not hold as stated. The handler obtains the credential before it looks at
  the request type, and returns the error of that step for a Delete request as for any
  other: without authorization data a Delete invocation fails.
\<close>

theorem delete_fails_without_credentials_counterexample:
  "RequestType (event_delete demo_target) = RequestDelete
   \<and> ResourceType (event_delete demo_target) = ''Custom::ContainerImage''
   \<and> err (Handler stdlibs world_without_credentials (event_delete demo_target))
       = Some NoAuthorizationData
   \<and> Error NoAuthorizationData = ''no authorization data was returned''"
  by code_simp

text \<open>
  Claim C3, amended. For a Delete request of a \<^verbatim>\<open>Custom::ContainerImage\<close> resource, once
  the session and the credential are obtained the handler returns no error, an empty
  physical resource id and no data: a physical resource id that does not parse is
  logged and ignored, a failed remote delete is logged and swallowed.
\<close>

theorem delete_succeeds_once_credentials_are_obtained:
  assumes "RequestType event = RequestDelete"
      and "ResourceType event = ''Custom::ContainerImage''"
      and "session_NewSessionWithOptions W = None"
      and "getAuthentication L W = Inr a"
  shows "err (Handler L W event) = None
         \<and> physicalResourceID (Handler L W event) = []
         \<and> data (Handler L W event) = None
         \<and> (\<forall>e. name_ParseReference L (PhysicalResourceID event) = Inl e \<longrightarrow>
               calls (Handler L W event)
                 = [CallGetAuthorizationToken,
                    LogPrintf (''ignoring invalid physical resource id ''
                               @ PhysicalResourceID event)])
         \<and> (\<forall>r e. name_ParseReference L (PhysicalResourceID event) = Inr r \<longrightarrow>
               remote_Delete W a r = Some e \<longrightarrow>
               calls (Handler L W event)
                 = [CallGetAuthorizationToken, CallDelete a r,
                    LogPrintf (''ignoring failed delete of image '' @ PhysicalResourceID event
                               @ '', '' @ e)])
         \<and> (\<forall>r. name_ParseReference L (PhysicalResourceID event) = Inr r \<longrightarrow>
               remote_Delete W a r = None \<longrightarrow>
               calls (Handler L W event) = [CallGetAuthorizationToken, CallDelete a r])"
proof -
  note h = Handler_delete [OF assms(2,3,4,1)]
  note d = delete_outcome [of L W event a]
  have "err (Handler L W event) = None" using d by (simp add: h)
  moreover have "physicalResourceID (Handler L W event) = []" using d by (simp add: h)
  moreover have "data (Handler L W event) = None" using d by (simp add: h)
  moreover have "\<forall>e. name_ParseReference L (PhysicalResourceID event) = Inl e \<longrightarrow>
               calls (Handler L W event)
                 = [CallGetAuthorizationToken,
                    LogPrintf (''ignoring invalid physical resource id ''
                               @ PhysicalResourceID event)]"
    by (simp add: h delete_def)
  moreover have "\<forall>r e. name_ParseReference L (PhysicalResourceID event) = Inr r \<longrightarrow>
               remote_Delete W a r = Some e \<longrightarrow>
               calls (Handler L W event)
                 = [CallGetAuthorizationToken, CallDelete a r,
                    LogPrintf (''ignoring failed delete of image '' @ PhysicalResourceID event
                               @ '', '' @ e)]"
    by (simp add: h delete_def)
  moreover have "\<forall>r. name_ParseReference L (PhysicalResourceID event) = Inr r \<longrightarrow>
               remote_Delete W a r = None \<longrightarrow>
               calls (Handler L W event) = [CallGetAuthorizationToken, CallDelete a r]"
    by (simp add: h delete_def)
  ultimately show ?thesis by (intro conjI)
qed

theorem delete_succeeds_once_credentials_are_obtained_witness:
  "RequestType (event_delete demo_target) = RequestDelete
   \<and> ResourceType (event_delete demo_target) = ''Custom::ContainerImage''
   \<and> session_NewSessionWithOptions world_delete_fails = None
   \<and> getAuthentication stdlibs world_delete_fails = Inr aws_secret
   \<and> name_ParseReference stdlibs (PhysicalResourceID (event_delete demo_target))
       = Inr (NTag ''444093529715.dkr.ecr.eu-central-1.amazonaws.com''
                ''cfn-container-image-provider-demo'' ''3.9'')
   \<and> err (Handler stdlibs world_delete_fails (event_delete demo_target)) = None
   \<and> calls (Handler stdlibs world_delete_fails (event_delete demo_target))
       = [CallGetAuthorizationToken,
          CallDelete aws_secret (NTag ''444093529715.dkr.ecr.eu-central-1.amazonaws.com''
                                   ''cfn-container-image-provider-demo'' ''3.9''),
          LogPrintf (''ignoring failed delete of image '' @ demo_target @ '', NAME_UNKNOWN'')]
   \<and> name_ParseReference stdlibs (PhysicalResourceID (event_delete ''Not A Reference''))
       = Inl ''could not parse reference: Not A Reference''
   \<and> err (Handler stdlibs world_ok (event_delete ''Not A Reference'')) = None
   \<and> calls (Handler stdlibs world_ok (event_delete ''Not A Reference''))
       = [CallGetAuthorizationToken,
          LogPrintf ''ignoring invalid physical resource id Not A Reference'']
   \<and> err (Handler stdlibs world_ok (event_delete demo_target)) = None
   \<and> calls (Handler stdlibs world_ok (event_delete demo_target))
       = [CallGetAuthorizationToken,
          CallDelete aws_secret (NTag ''444093529715.dkr.ecr.eu-central-1.amazonaws.com''
                                   ''cfn-container-image-provider-demo'' ''3.9'')]"
proof -
  let ?ref = "NTag ''444093529715.dkr.ecr.eu-central-1.amazonaws.com''
                ''cfn-container-image-provider-demo'' ''3.9''"
  have a1: "RequestType (event_delete demo_target) = RequestDelete" by code_simp
  have a2: "ResourceType (event_delete demo_target) = ''Custom::ContainerImage''" by code_simp
  have a3: "session_NewSessionWithOptions world_delete_fails = None" by code_simp
  have a4: "getAuthentication stdlibs world_delete_fails = Inr aws_secret" by code_simp
  have a5: "name_ParseReference stdlibs (PhysicalResourceID (event_delete demo_target))
              = Inr ?ref" by code_simp
  have a6: "remote_Delete world_delete_fails aws_secret ?ref = Some ''NAME_UNKNOWN''"
    by code_simp
  have a7: "PhysicalResourceID (event_delete demo_target) = demo_target" by code_simp
  note a = delete_succeeds_once_credentials_are_obtained [OF a1 a2 a3 a4]
  from a have ae: "err (Handler stdlibs world_delete_fails (event_delete demo_target)) = None"
    by (rule conjunct1)
  from a a5 a6 have "calls (Handler stdlibs world_delete_fails (event_delete demo_target))
       = [CallGetAuthorizationToken, CallDelete aws_secret ?ref,
          LogPrintf (''ignoring failed delete of image ''
                     @ PhysicalResourceID (event_delete demo_target) @ '', '' @ ''NAME_UNKNOWN'')]"
    by blast
  then have ac: "calls (Handler stdlibs world_delete_fails (event_delete demo_target))
       = [CallGetAuthorizationToken, CallDelete aws_secret ?ref,
          LogPrintf (''ignoring failed delete of image '' @ demo_target @ '', NAME_UNKNOWN'')]"
    by (simp add: a7)
  have b1: "RequestType (event_delete ''Not A Reference'') = RequestDelete" by code_simp
  have b2: "ResourceType (event_delete ''Not A Reference'') = ''Custom::ContainerImage''"
    by code_simp
  have b3: "session_NewSessionWithOptions world_ok = None" by code_simp
  have b4: "getAuthentication stdlibs world_ok = Inr aws_secret" by code_simp
  have b5: "name_ParseReference stdlibs (PhysicalResourceID (event_delete ''Not A Reference''))
              = Inl ''could not parse reference: Not A Reference''" by code_simp
  have b7: "PhysicalResourceID (event_delete ''Not A Reference'') = ''Not A Reference''"
    by code_simp
  note b = delete_succeeds_once_credentials_are_obtained [OF b1 b2 b3 b4]
  from b have be: "err (Handler stdlibs world_ok (event_delete ''Not A Reference'')) = None"
    by (rule conjunct1)
  from b b5 have "calls (Handler stdlibs world_ok (event_delete ''Not A Reference''))
       = [CallGetAuthorizationToken,
          LogPrintf (''ignoring invalid physical resource id ''
                     @ PhysicalResourceID (event_delete ''Not A Reference''))]"
    by blast
  then have bc: "calls (Handler stdlibs world_ok (event_delete ''Not A Reference''))
       = [CallGetAuthorizationToken,
          LogPrintf ''ignoring invalid physical resource id Not A Reference'']"
    by (simp add: b7)
  have c6: "remote_Delete world_ok aws_secret ?ref = None" by code_simp
  note c = delete_succeeds_once_credentials_are_obtained [OF a1 a2 b3 b4]
  from c have ce: "err (Handler stdlibs world_ok (event_delete demo_target)) = None"
    by (rule conjunct1)
  from c a5 c6 have cc: "calls (Handler stdlibs world_ok (event_delete demo_target))
       = [CallGetAuthorizationToken, CallDelete aws_secret ?ref]"
    by blast
  from a1 a2 a3 a4 a5 ae ac b5 be bc ce cc show ?thesis by (intro conjI)
qed

section \<open>The Platforms attribute\<close>

text \<open>
  Claim C4 does not hold as stated. Its second case is every request that is not
  \<^verbatim>\<open>all\<close> on an index, and that includes \<^verbatim>\<open>all\<close> on a source that is a single image.
  There \<^verbatim>\<open>getPlatforms\<close> finds no index and returns the empty list it started with:
  \<^verbatim>\<open>Platforms\<close> has no element, not one.
\<close>

theorem platforms_of_single_image_source_counterexample:
  "ResourceProperties (event_platform (IString ''All'')) ''Platform'' = Some (IString ''All'')
   \<and> strings_TrimSpace stdlibs (strings_ToLower stdlibs ''All'') = ''all''
   \<and> ImageIndex python_image = Inl ''unexpected media type for ImageIndex()''
   \<and> err (Handler stdlibs world_single_image (event_platform (IString ''All''))) = None
   \<and> calls (Handler stdlibs world_single_image (event_platform (IString ''All'')))
       = [CallGetAuthorizationToken,
          CallGet None (NTag ''index.docker.io'' ''python'' ''3.9''),
          CallPush aws_secret
            (NTag ''444093529715.dkr.ecr.eu-central-1.amazonaws.com''
               ''cfn-container-image-provider-demo'' ''3.9'')
            (TaggableDescriptor python_image)]
   \<and> attribute (Handler stdlibs world_single_image (event_platform (IString ''All'')))
         ''Platforms'' = Some (IStrings [])
   \<and> length ([] :: string list) \<noteq> 1"
  by code_simp

text \<open>
  Claim C4, amended. After a successful \<^verbatim>\<open>create\<close>: when the \<^verbatim>\<open>Platform\<close> property is
  \<^verbatim>\<open>all\<close> (after lower-casing and trimming) and the fetched descriptor is an index with a
  manifest, \<^verbatim>\<open>Platforms\<close> is the list of the platform strings of the manifest's entries,
  in the order of the manifest (an entry without a platform has no string); when the
  property is \<^verbatim>\<open>all\<close> and the descriptor is no index, or the manifest of the index cannot
  be read, \<^verbatim>\<open>Platforms\<close> is empty; when the property is another string, it is the one
  string of the parsed platform; when the property is absent or not a string, it is the
  one string of the default platform.
\<close>

theorem platforms_output:
  assumes "err (create L W event a) = None"
      and "validate L event = Inr properties"
      and "puller_Get W (Platform properties) (Source properties) = Inr descriptor"
  shows "(\<forall>pf index im.
            ResourceProperties event ''Platform'' = Some (IString pf) \<longrightarrow>
            strings_TrimSpace L (strings_ToLower L pf) = ''all'' \<longrightarrow>
            ImageIndex descriptor = Inr index \<longrightarrow> IndexManifest index = Inr im \<longrightarrow>
              attribute (create L W event a) ''Platforms''
                = Some (IStrings (map (Platform_String L)
                                    (List.map_filter Descriptor_Platform (Manifests im)))))
         \<and> (\<forall>pf e.
            ResourceProperties event ''Platform'' = Some (IString pf) \<longrightarrow>
            strings_TrimSpace L (strings_ToLower L pf) = ''all'' \<longrightarrow>
            ImageIndex descriptor = Inl e \<longrightarrow>
              attribute (create L W event a) ''Platforms'' = Some (IStrings []))
         \<and> (\<forall>pf index e.
            ResourceProperties event ''Platform'' = Some (IString pf) \<longrightarrow>
            strings_TrimSpace L (strings_ToLower L pf) = ''all'' \<longrightarrow>
            ImageIndex descriptor = Inr index \<longrightarrow> IndexManifest index = Inl e \<longrightarrow>
              attribute (create L W event a) ''Platforms'' = Some (IStrings []))
         \<and> (\<forall>pf p.
            ResourceProperties event ''Platform'' = Some (IString pf) \<longrightarrow>
            strings_TrimSpace L (strings_ToLower L pf) \<noteq> ''all'' \<longrightarrow>
            v1_ParsePlatform L pf = Inr p \<longrightarrow>
              attribute (create L W event a) ''Platforms''
                = Some (IStrings [Platform_String L p]))
         \<and> ((\<forall>pf. ResourceProperties event ''Platform'' \<noteq> Some (IString pf)) \<longrightarrow>
              attribute (create L W event a) ''Platforms''
                = Some (IStrings [Platform_String L default_platform]))"
proof -
  note at = create_attribute [OF assms, of "''Platforms''"]
  from validate_stages [OF assms(2)]
  have pf: "validate_platform L event = Inr (Platform properties)" by simp
  show ?thesis
  proof (intro conjI allI impI)
    fix pf index im
    assume "ResourceProperties event ''Platform'' = Some (IString pf)"
      and "strings_TrimSpace L (strings_ToLower L pf) = ''all''"
      and ix: "ImageIndex descriptor = Inr index" "IndexManifest index = Inr im"
    with pf have "Platform properties = None" by (simp add: validate_platform_def)
    then show "attribute (create L W event a) ''Platforms''
                = Some (IStrings (map (Platform_String L)
                                    (List.map_filter Descriptor_Platform (Manifests im))))"
      by (simp add: at create_data_def getPlatforms_index [OF ix])
  next
    fix pf e
    assume "ResourceProperties event ''Platform'' = Some (IString pf)"
      and "strings_TrimSpace L (strings_ToLower L pf) = ''all''"
      and ix: "ImageIndex descriptor = Inl e"
    with pf have "Platform properties = None" by (simp add: validate_platform_def)
    then show "attribute (create L W event a) ''Platforms'' = Some (IStrings [])"
      by (simp add: at create_data_def getPlatforms_def ix)
  next
    fix pf index e
    assume "ResourceProperties event ''Platform'' = Some (IString pf)"
      and "strings_TrimSpace L (strings_ToLower L pf) = ''all''"
      and ix: "ImageIndex descriptor = Inr index" "IndexManifest index = Inl e"
    with pf have "Platform properties = None" by (simp add: validate_platform_def)
    then show "attribute (create L W event a) ''Platforms'' = Some (IStrings [])"
      by (simp add: at create_data_def getPlatforms_def ix)
  next
    fix pf p
    assume "ResourceProperties event ''Platform'' = Some (IString pf)"
      and "strings_TrimSpace L (strings_ToLower L pf) \<noteq> ''all''"
      and "v1_ParsePlatform L pf = Inr p"
    with pf have "Platform properties = Some p" by (simp add: validate_platform_def)
    then show "attribute (create L W event a) ''Platforms''
                = Some (IStrings [Platform_String L p])"
      by (simp add: at create_data_def)
  next
    assume ns: "\<forall>pf. ResourceProperties event ''Platform'' \<noteq> Some (IString pf)"
    have "validate_platform L event = Inr (Some default_platform)"
    proof (cases "ResourceProperties event ''Platform''")
      case None
      then show ?thesis by (simp add: validate_platform_def)
    next
      case (Some v)
      with ns show ?thesis by (cases v) (simp_all add: validate_platform_def)
    qed
    with pf have "Platform properties = Some default_platform" by simp
    then show "attribute (create L W event a) ''Platforms''
                = Some (IStrings [Platform_String L default_platform])"
      by (simp add: at create_data_def)
  qed
qed

theorem platforms_output_witness:
  "err (create stdlibs world_ok (event_platform (IString ''All'')) aws_secret) = None
   \<and> strings_TrimSpace stdlibs (strings_ToLower stdlibs ''All'') = ''all''
   \<and> attribute (create stdlibs world_ok (event_platform (IString ''All'')) aws_secret)
         ''Platforms'' = Some (IStrings [''linux/amd64'', ''linux/arm64/v8''])
   \<and> err (create stdlibs world_single_image (event_platform (IString ''All'')) aws_secret)
       = None
   \<and> ImageIndex python_image = Inl ''unexpected media type for ImageIndex()''
   \<and> attribute (create stdlibs world_single_image (event_platform (IString ''All'')) aws_secret)
         ''Platforms'' = Some (IStrings [])
   \<and> err (create stdlibs world_unreadable_index (event_platform (IString ''All'')) aws_secret)
       = None
   \<and> attribute (create stdlibs world_unreadable_index (event_platform (IString ''All''))
                  aws_secret) ''Platforms'' = Some (IStrings [])
   \<and> err (create stdlibs world_ok (event_platform (IString ''linux/arm64'')) aws_secret) = None
   \<and> v1_ParsePlatform stdlibs ''linux/arm64'' = Inr (platform_of ''linux'' ''arm64'' [])
   \<and> attribute (create stdlibs world_ok (event_platform (IString ''linux/arm64'')) aws_secret)
         ''Platforms'' = Some (IStrings [''linux/arm64''])
   \<and> err (create stdlibs world_ok (event_tag_only ''Create'') aws_secret) = None
   \<and> ResourceProperties (event_tag_only ''Create'') ''Platform'' = None
   \<and> attribute (create stdlibs world_ok (event_tag_only ''Create'') aws_secret)
         ''Platforms'' = Some (IStrings [''linux/amd64''])"
proof -
  have get: "\<And>pf src. puller_Get world_ok pf src = Inr python_index"
    by (simp add: world_ok_def)
  have ix: "ImageIndex python_index = Inr \<lparr>IndexManifest = Inr \<lparr>Manifests =
        [\<lparr>Descriptor_Platform = Some (platform_of ''linux'' ''amd64'' [])\<rparr>,
         \<lparr>Descriptor_Platform = None\<rparr>,
         \<lparr>Descriptor_Platform = Some (platform_of ''linux'' ''arm64'' ''v8'')\<rparr>]\<rparr>\<rparr>"
    by (simp add: python_index_def)
  let ?im = "\<lparr>Manifests =
        [\<lparr>Descriptor_Platform = Some (platform_of ''linux'' ''amd64'' [])\<rparr>,
         \<lparr>Descriptor_Platform = None\<rparr>,
         \<lparr>Descriptor_Platform = Some (platform_of ''linux'' ''arm64'' ''v8'')\<rparr>]\<rparr>"
  have a1: "err (create stdlibs world_ok (event_platform (IString ''All'')) aws_secret) = None"
    by code_simp
  obtain pa where a2: "validate stdlibs (event_platform (IString ''All'')) = Inr pa"
    by (cases "validate stdlibs (event_platform (IString ''All''))") (simp_all, code_simp)
  have a3: "ResourceProperties (event_platform (IString ''All'')) ''Platform''
              = Some (IString ''All'')" by code_simp
  have a4: "strings_TrimSpace stdlibs (strings_ToLower stdlibs ''All'') = ''all''"
    by code_simp
  have a5: "IndexManifest \<lparr>IndexManifest = Inr ?im\<rparr> = Inr ?im" by simp
  have a6: "map (Platform_String stdlibs) (List.map_filter Descriptor_Platform (Manifests ?im))
              = [''linux/amd64'', ''linux/arm64/v8'']"
    by code_simp
  from platforms_output [OF a1 a2 get] a3 a4 ix a5
  have "attribute (create stdlibs world_ok (event_platform (IString ''All'')) aws_secret)
          ''Platforms''
        = Some (IStrings (map (Platform_String stdlibs)
                            (List.map_filter Descriptor_Platform (Manifests ?im))))"
    by blast
  then have a: "attribute (create stdlibs world_ok (event_platform (IString ''All'')) aws_secret)
         ''Platforms'' = Some (IStrings [''linux/amd64'', ''linux/arm64/v8''])"
    by (simp only: a6)
  have gs: "\<And>pf src. puller_Get world_single_image pf src = Inr python_image"
    by (simp add: world_single_image_def)
  have s1: "err (create stdlibs world_single_image (event_platform (IString ''All'')) aws_secret)
              = None"
    by code_simp
  have s2: "ImageIndex python_image = Inl ''unexpected media type for ImageIndex()''"
    by (simp add: python_image_def)
  from platforms_output [OF s1 a2 gs] a3 a4 s2
  have s: "attribute (create stdlibs world_single_image (event_platform (IString ''All''))
                        aws_secret) ''Platforms'' = Some (IStrings [])"
    by blast
  have gu: "\<And>pf src. puller_Get world_unreadable_index pf src = Inr python_unreadable_index"
    by (simp add: world_unreadable_index_def)
  have u1: "err (create stdlibs world_unreadable_index (event_platform (IString ''All''))
                   aws_secret) = None"
    by code_simp
  have u2: "ImageIndex python_unreadable_index
              = Inr \<lparr>IndexManifest = Inl ''unexpected end of JSON input''\<rparr>"
    by (simp add: python_unreadable_index_def)
  have u3: "IndexManifest \<lparr>IndexManifest = Inl ''unexpected end of JSON input''\<rparr>
              = Inl ''unexpected end of JSON input''"
    by simp
  from platforms_output [OF u1 a2 gu] a3 a4 u2 u3
  have u: "attribute (create stdlibs world_unreadable_index (event_platform (IString ''All''))
                        aws_secret) ''Platforms'' = Some (IStrings [])"
    by blast
  have b1: "err (create stdlibs world_ok (event_platform (IString ''linux/arm64'')) aws_secret)
              = None"
    by code_simp
  obtain pb where b2: "validate stdlibs (event_platform (IString ''linux/arm64'')) = Inr pb"
    by (cases "validate stdlibs (event_platform (IString ''linux/arm64''))")
       (simp_all, code_simp)
  have b3: "ResourceProperties (event_platform (IString ''linux/arm64'')) ''Platform''
              = Some (IString ''linux/arm64'')" by code_simp
  have b4: "strings_TrimSpace stdlibs (strings_ToLower stdlibs ''linux/arm64'') \<noteq> ''all''"
    by code_simp
  have b5: "v1_ParsePlatform stdlibs ''linux/arm64'' = Inr (platform_of ''linux'' ''arm64'' [])"
    by code_simp
  have b6: "Platform_String stdlibs (platform_of ''linux'' ''arm64'' []) = ''linux/arm64''"
    by code_simp
  from platforms_output [OF b1 b2 get] b3 b4 b5
  have "attribute (create stdlibs world_ok (event_platform (IString ''linux/arm64'')) aws_secret)
          ''Platforms''
        = Some (IStrings [Platform_String stdlibs (platform_of ''linux'' ''arm64'' [])])"
    by blast
  then have b: "attribute (create stdlibs world_ok (event_platform (IString ''linux/arm64''))
                             aws_secret) ''Platforms'' = Some (IStrings [''linux/arm64''])"
    by (simp only: b6)
  have c1: "err (create stdlibs world_ok (event_tag_only ''Create'') aws_secret) = None"
    by code_simp
  obtain pc where c2: "validate stdlibs (event_tag_only ''Create'') = Inr pc"
    by (cases "validate stdlibs (event_tag_only ''Create'')") (simp_all, code_simp)
  have c3: "ResourceProperties (event_tag_only ''Create'') ''Platform'' = None" by code_simp
  have c6: "Platform_String stdlibs default_platform = ''linux/amd64''" by code_simp
  from platforms_output [OF c1 c2 get] c3
  have "attribute (create stdlibs world_ok (event_tag_only ''Create'') aws_secret) ''Platforms''
        = Some (IStrings [Platform_String stdlibs default_platform])"
    by simp
  then have c: "attribute (create stdlibs world_ok (event_tag_only ''Create'') aws_secret)
                  ''Platforms'' = Some (IStrings [''linux/amd64''])"
    by (simp only: c6)
  from a1 a4 a s1 s2 s u1 u b1 b5 b c1 c3 c show ?thesis by (intro conjI)
qed

section \<open>The Digest attribute\<close>

text \<open>
  Claim C5 fails on the code when one image of an index is pushed. \<^verbatim>\<open>create\<close> stores
  \<^verbatim>\<open>descriptor.Digest\<close> in both branches; with a platform set it pushes the image taken
  from the descriptor, whose digest is another one when the source is an index. Here the
  source serves an index for \<^verbatim>\<open>python:3.9\<close>. Without a \<^verbatim>\<open>Platform\<close> property the image for
  the default platform is pushed, and the attribute is the digest of the index, not of
  that image. With \<^verbatim>\<open>Platform\<close> \<^verbatim>\<open>all\<close> the index itself is pushed and the attribute is
  its digest, as the claim says.
\<close>

theorem digest_attribute_is_not_the_pushed_image_digest:
  "attribute (Handler stdlibs world_ok event_tag_and_digest) ''Digest''
     = Some (IString python_digest)
   \<and> calls (Handler stdlibs world_ok event_tag_and_digest)
     = [CallGetAuthorizationToken,
        CallGet (Some default_platform)
          (NDigest ''index.docker.io'' ''library/python'' python_digest
             (''python@'' @ python_digest)),
        CallImage,
        CallPush aws_secret
          (NTag ''444093529715.dkr.ecr.eu-central-1.amazonaws.com''
             ''cfn-container-image-provider-demo'' ''3.9'')
          (TaggableImage \<lparr>Image_Digest = other_digest\<rparr>)]
   \<and> taggable_digest (TaggableImage \<lparr>Image_Digest = other_digest\<rparr>) = other_digest
   \<and> other_digest \<noteq> python_digest
   \<and> attribute (Handler stdlibs world_ok (event_platform (IString ''All''))) ''Digest''
     = Some (IString python_digest)
   \<and> calls (Handler stdlibs world_ok (event_platform (IString ''All'')))
     = [CallGetAuthorizationToken,
        CallGet None (NTag ''index.docker.io'' ''python'' ''3.9''),
        CallPush aws_secret
          (NTag ''444093529715.dkr.ecr.eu-central-1.amazonaws.com''
             ''cfn-container-image-provider-demo'' ''3.9'')
          (TaggableDescriptor python_index)]
   \<and> taggable_digest (TaggableDescriptor python_index) = python_digest"
  by code_simp

section \<open>The default tag\<close>

text \<open>
  Claim C6. Let the second and third group that \<^verbatim>\<open>ReferenceRegexp\<close> finds in the parsed
  reference be the given tag and digest. With neither, the tag of the validated
  properties is \<^verbatim>\<open>latest\<close>; with a digest only, the tag stays empty and the digest is the
  given one; with a tag, the tag is the given one.
\<close>

theorem default_tag_policy:
  assumes "validate L event = Inr properties"
      and "ResourceProperties event ''ImageReference'' = Some (IString ref)"
      and "reference_Parse L ref = Inr r"
      and "parts = ReferenceRegexp_FindStringSubmatch L (reference_String L r)"
  shows "(submatch parts 2 = [] \<and> submatch parts 3 = [] \<longrightarrow>
            SourceTag properties = ''latest'' \<and> SourceDigest properties = [])
         \<and> (submatch parts 2 = [] \<and> submatch parts 3 \<noteq> [] \<longrightarrow>
            SourceTag properties = [] \<and> SourceDigest properties = submatch parts 3)
         \<and> (submatch parts 2 \<noteq> [] \<longrightarrow> SourceTag properties = submatch parts 2)"
proof -
  from assms(1) have "validate_source L event
      = Inr (Source properties, SourceTag properties, SourceDigest properties,
             SourceName properties)"
    by (simp add: validate_stages)
  from validate_source_fields [OF this assms(2,3,4)] show ?thesis by auto
qed

theorem default_tag_policy_witness:
  "(\<exists>p. validate stdlibs event_name_only = Inr p
        \<and> std_ReferenceRegexp ''python'' = [''python'', ''python'', [], []]
        \<and> SourceTag p = ''latest'' \<and> SourceDigest p = [])
   \<and> (\<exists>p. validate stdlibs event_digest_only = Inr p
        \<and> std_ReferenceRegexp (''docker.io/library/python@'' @ python_digest)
            = [''docker.io/library/python@'' @ python_digest, ''docker.io/library/python'',
               [], python_digest]
        \<and> SourceTag p = [] \<and> SourceDigest p = python_digest)
   \<and> (\<exists>p. validate stdlibs (event_tag_only ''Create'') = Inr p
        \<and> std_ReferenceRegexp ''python:3.7'' = [''python:3.7'', ''python'', ''3.7'', []]
        \<and> SourceTag p = ''3.7'')"
proof -
  obtain pa where a1: "validate stdlibs event_name_only = Inr pa"
    by (cases "validate stdlibs event_name_only") (simp_all, code_simp)
  have a2: "ResourceProperties event_name_only ''ImageReference'' = Some (IString ''python'')"
    by code_simp
  have a3: "reference_Parse stdlibs ''python'' = Inr (DRef ''python'' [] [])"
    by code_simp
  have a4: "ReferenceRegexp_FindStringSubmatch stdlibs
              (reference_String stdlibs (DRef ''python'' [] []))
            = [''python'', ''python'', [], []]"
    by code_simp
  have a5: "std_ReferenceRegexp ''python'' = [''python'', ''python'', [], []]"
    by code_simp
  from default_tag_policy [OF a1 a2 a3 a4 [symmetric]]
  have a: "SourceTag pa = ''latest'' \<and> SourceDigest pa = []"
    by (simp add: submatch_def)
  obtain pb where b1: "validate stdlibs event_digest_only = Inr pb"
    by (cases "validate stdlibs event_digest_only") (simp_all, code_simp)
  have b2: "ResourceProperties event_digest_only ''ImageReference''
              = Some (IString (''docker.io/library/python@'' @ python_digest))"
    by code_simp
  have b3: "reference_Parse stdlibs (''docker.io/library/python@'' @ python_digest)
              = Inr (DRef ''docker.io/library/python'' [] python_digest)"
    by code_simp
  have b4: "ReferenceRegexp_FindStringSubmatch stdlibs
              (reference_String stdlibs (DRef ''docker.io/library/python'' [] python_digest))
            = [''docker.io/library/python@'' @ python_digest, ''docker.io/library/python'',
               [], python_digest]"
    by code_simp
  have b5: "std_ReferenceRegexp (''docker.io/library/python@'' @ python_digest)
            = [''docker.io/library/python@'' @ python_digest, ''docker.io/library/python'',
               [], python_digest]"
    by code_simp
  have b6: "python_digest \<noteq> []" by code_simp
  from default_tag_policy [OF b1 b2 b3 b4 [symmetric]] b6
  have b: "SourceTag pb = [] \<and> SourceDigest pb = python_digest"
    by (simp add: submatch_def)
  obtain pc where c1: "validate stdlibs (event_tag_only ''Create'') = Inr pc"
    by (cases "validate stdlibs (event_tag_only ''Create'')") (simp_all, code_simp)
  have c2: "ResourceProperties (event_tag_only ''Create'') ''ImageReference''
              = Some (IString ''python:3.7'')"
    by code_simp
  have c3: "reference_Parse stdlibs ''python:3.7'' = Inr (DRef ''python'' ''3.7'' [])"
    by code_simp
  have c4: "ReferenceRegexp_FindStringSubmatch stdlibs
              (reference_String stdlibs (DRef ''python'' ''3.7'' []))
            = [''python:3.7'', ''python'', ''3.7'', []]"
    by code_simp
  have c5: "std_ReferenceRegexp ''python:3.7'' = [''python:3.7'', ''python'', ''3.7'', []]"
    by code_simp
  from default_tag_policy [OF c1 c2 c3 c4 [symmetric]]
  have c: "SourceTag pc = ''3.7''"
    by (simp add: submatch_def)
  from a1 a5 a b1 b5 b c1 c5 c show ?thesis by blast
qed

section \<open>The physical resource id of a failed request\<close>

text \<open>
  Claim C7. When the session and the credential are obtained and \<^verbatim>\<open>create\<close> fails, for
  whatever reason (validation, fetch, image resolution or push), a Create request
  returns the error with the physical resource id \<^verbatim>\<open>create-failed\<close>, and an Update request
  returns the error with the empty physical resource id.
\<close>

theorem failed_create_keeps_sentinel_failed_update_no_id:
  assumes "ResourceType event = ''Custom::ContainerImage''"
      and "session_NewSessionWithOptions W = None"
      and "getAuthentication L W = Inr a"
      and "err (create L W event a) = Some e"
  shows "(RequestType event = RequestCreate \<longrightarrow>
            physicalResourceID (Handler L W event) = ''create-failed''
            \<and> err (Handler L W event) = Some e)
         \<and> (RequestType event = RequestUpdate \<longrightarrow>
            physicalResourceID (Handler L W event) = []
            \<and> err (Handler L W event) = Some e)"
proof -
  note f = create_failure [OF assms(4)]
  show ?thesis
  proof (intro conjI impI)
    assume c: "RequestType event = RequestCreate"
    show "physicalResourceID (Handler L W event) = ''create-failed''"
      using f by (simp add: Handler_create [OF assms(1,2,3) c])
    show "err (Handler L W event) = Some e"
      using assms(4) by (simp add: Handler_create [OF assms(1,2,3) c])
  next
    assume u: "RequestType event = RequestUpdate"
    show "physicalResourceID (Handler L W event) = []"
      using f by (simp add: Handler_update [OF assms(1,2,3) u])
    show "err (Handler L W event) = Some e"
      using assms(4) by (simp add: Handler_update [OF assms(1,2,3) u])
  qed
qed

theorem failed_create_keeps_sentinel_failed_update_no_id_witness:
  "ResourceType (event_incorrect_arn ''Create'') = ''Custom::ContainerImage''
   \<and> session_NewSessionWithOptions world_ok = None
   \<and> getAuthentication stdlibs world_ok = Inr aws_secret
   \<and> RequestType (event_incorrect_arn ''Create'') = RequestCreate
   \<and> err (create stdlibs world_ok (event_incorrect_arn ''Create'') aws_secret)
       = Some (InvalidRepositoryArn
                 ''arn:a:ws:ecr:eu-ce:ntral-1:444093529715:repository/python'')
   \<and> physicalResourceID (Handler stdlibs world_ok (event_incorrect_arn ''Create''))
       = ''create-failed''
   \<and> RequestType (event_incorrect_arn ''Update'') = RequestUpdate
   \<and> err (create stdlibs world_ok (event_incorrect_arn ''Update'') aws_secret)
       = Some (InvalidRepositoryArn
                 ''arn:a:ws:ecr:eu-ce:ntral-1:444093529715:repository/python'')
   \<and> physicalResourceID (Handler stdlibs world_ok (event_incorrect_arn ''Update'')) = []
   \<and> err (Handler stdlibs world_ok (event_incorrect_arn ''Update''))
       = Some (InvalidRepositoryArn
                 ''arn:a:ws:ecr:eu-ce:ntral-1:444093529715:repository/python'')
   \<and> err (create stdlibs world_push_fails (event_tag_only ''Create'') aws_secret)
       = Some (PushImageFailed ''DENIED'')
   \<and> physicalResourceID (Handler stdlibs world_push_fails (event_tag_only ''Create''))
       = ''create-failed''
   \<and> err (Handler stdlibs world_push_fails (event_tag_only ''Create''))
       = Some (PushImageFailed ''DENIED'')"
proof -
  let ?e = "InvalidRepositoryArn ''arn:a:ws:ecr:eu-ce:ntral-1:444093529715:repository/python''"
  have a1: "ResourceType (event_incorrect_arn ''Create'') = ''Custom::ContainerImage''"
    by code_simp
  have a2: "session_NewSessionWithOptions world_ok = None" by code_simp
  have a3: "getAuthentication stdlibs world_ok = Inr aws_secret" by code_simp
  have a4: "err (create stdlibs world_ok (event_incorrect_arn ''Create'') aws_secret) = Some ?e"
    by code_simp
  have a5: "RequestType (event_incorrect_arn ''Create'') = RequestCreate" by code_simp
  from failed_create_keeps_sentinel_failed_update_no_id [OF a1 a2 a3 a4] a5
  have a: "physicalResourceID (Handler stdlibs world_ok (event_incorrect_arn ''Create''))
             = ''create-failed''"
    by blast
  have b1: "ResourceType (event_incorrect_arn ''Update'') = ''Custom::ContainerImage''"
    by code_simp
  have b4: "err (create stdlibs world_ok (event_incorrect_arn ''Update'') aws_secret) = Some ?e"
    by code_simp
  have b5: "RequestType (event_incorrect_arn ''Update'') = RequestUpdate" by code_simp
  from failed_create_keeps_sentinel_failed_update_no_id [OF b1 a2 a3 b4] b5
  have b: "physicalResourceID (Handler stdlibs world_ok (event_incorrect_arn ''Update'')) = []
           \<and> err (Handler stdlibs world_ok (event_incorrect_arn ''Update'')) = Some ?e"
    by blast
  have c1: "ResourceType (event_tag_only ''Create'') = ''Custom::ContainerImage''"
    by code_simp
  have c2: "session_NewSessionWithOptions world_push_fails = None" by code_simp
  have c3: "getAuthentication stdlibs world_push_fails = Inr aws_secret" by code_simp
  have c4: "err (create stdlibs world_push_fails (event_tag_only ''Create'') aws_secret)
              = Some (PushImageFailed ''DENIED'')"
    by code_simp
  have c5: "RequestType (event_tag_only ''Create'') = RequestCreate" by code_simp
  from failed_create_keeps_sentinel_failed_update_no_id [OF c1 c2 c3 c4] c5
  have c: "physicalResourceID (Handler stdlibs world_push_fails (event_tag_only ''Create''))
             = ''create-failed''
           \<and> err (Handler stdlibs world_push_fails (event_tag_only ''Create''))
             = Some (PushImageFailed ''DENIED'')"
    by blast
  from a1 a2 a3 a5 a4 a b5 b4 b c4 c show ?thesis by (intro conjI) auto
qed

section \<open>Create twice\<close>

text \<open>
  Claim C8. Two successful Create invocations with the same properties, in two worlds
  whose source registry answers alike (the credential, the target registry and the
  other fields of the event may differ), return the same physical resource id and the
  same data, in particular the same \<^verbatim>\<open>Digest\<close>.
\<close>

theorem create_is_idempotent:
  assumes "puller_Get W1 = puller_Get W2"
      and "ResourceProperties event1 ''ImageReference'' = ResourceProperties event2 ''ImageReference''"
      and "ResourceProperties event1 ''RepositoryArn'' = ResourceProperties event2 ''RepositoryArn''"
      and "ResourceProperties event1 ''Platform'' = ResourceProperties event2 ''Platform''"
      and "RequestType event1 = RequestCreate" and "RequestType event2 = RequestCreate"
      and "err (Handler L W1 event1) = None" and "err (Handler L W2 event2) = None"
  shows "physicalResourceID (Handler L W1 event1) = physicalResourceID (Handler L W2 event2)
         \<and> data (Handler L W1 event1) = data (Handler L W2 event2)
         \<and> attribute (Handler L W1 event1) ''Digest'' = attribute (Handler L W2 event2) ''Digest''
         \<and> (\<exists>dg. attribute (Handler L W1 event1) ''Digest'' = Some (IString dg))"
proof -
  from Handler_create_success [OF assms(5,7)] obtain a1 where
    s1: "err (create L W1 event1 a1) = None"
    and p1: "physicalResourceID (Handler L W1 event1)
               = (if physicalResourceID (create L W1 event1 a1) = [] then ''create-failed''
                  else physicalResourceID (create L W1 event1 a1))"
    and d1: "data (Handler L W1 event1) = data (create L W1 event1 a1)" by blast
  from Handler_create_success [OF assms(6,8)] obtain a2 where
    s2: "err (create L W2 event2 a2) = None"
    and p2: "physicalResourceID (Handler L W2 event2)
               = (if physicalResourceID (create L W2 event2 a2) = [] then ''create-failed''
                  else physicalResourceID (create L W2 event2 a2))"
    and d2: "data (Handler L W2 event2) = data (create L W2 event2 a2)" by blast
  from create_success [OF s1] obtain q1 x1 where
    c1: "validate L event1 = Inr q1" "puller_Get W1 (Platform q1) (Source q1) = Inr x1"
        "physicalResourceID (create L W1 event1 a1) = name_String L (Target q1)"
        "data (create L W1 event1 a1) = Some (create_data L q1 x1)" by blast
  from create_success [OF s2] obtain q2 x2 where
    c2: "validate L event2 = Inr q2" "puller_Get W2 (Platform q2) (Source q2) = Inr x2"
        "physicalResourceID (create L W2 event2 a2) = name_String L (Target q2)"
        "data (create L W2 event2 a2) = Some (create_data L q2 x2)" by blast
  have "validate L event1 = validate L event2" using assms(2,3,4) by (rule validate_cong)
  with c1(1) c2(1) have q: "q1 = q2" by simp
  with c1(2) c2(2) assms(1) have x: "x1 = x2" by simp
  have pid: "physicalResourceID (Handler L W1 event1) = physicalResourceID (Handler L W2 event2)"
    by (simp add: p1 p2 c1(3) c2(3) q)
  have dat: "data (Handler L W1 event1) = data (Handler L W2 event2)"
    by (simp add: d1 d2 c1(4) c2(4) q x)
  have att: "attribute (Handler L W1 event1) ''Digest'' = attribute (Handler L W2 event2) ''Digest''"
    by (simp add: attribute_def dat)
  have "attribute (Handler L W1 event1) ''Digest'' = Some (IString (Digest x1))"
    by (simp add: attribute_def d1 c1(4) create_data_def)
  then have "\<exists>dg. attribute (Handler L W1 event1) ''Digest'' = Some (IString dg)" by blast
  with pid dat att show ?thesis by (intro conjI)
qed

theorem create_is_idempotent_witness:
  "puller_Get world_ok = puller_Get world_other_credentials
   \<and> getAuthentication stdlibs world_ok = Inr aws_secret
   \<and> getAuthentication stdlibs world_other_credentials
       = Inr \<lparr>Username = ''AWS'', Password = ''secret12''\<rparr>
   \<and> RequestType event_tag_and_digest = RequestCreate
   \<and> err (Handler stdlibs world_ok event_tag_and_digest) = None
   \<and> err (Handler stdlibs world_other_credentials event_tag_and_digest) = None
   \<and> physicalResourceID (Handler stdlibs world_ok event_tag_and_digest) = demo_target
   \<and> physicalResourceID (Handler stdlibs world_other_credentials event_tag_and_digest)
       = demo_target
   \<and> attribute (Handler stdlibs world_ok event_tag_and_digest) ''Digest''
       = Some (IString python_digest)
   \<and> attribute (Handler stdlibs world_other_credentials event_tag_and_digest) ''Digest''
       = Some (IString python_digest)"
proof -
  have h1: "puller_Get world_ok = puller_Get world_other_credentials"
    by (simp add: world_other_credentials_def)
  have h2: "RequestType event_tag_and_digest = RequestCreate" by code_simp
  have h3: "err (Handler stdlibs world_ok event_tag_and_digest) = None" by code_simp
  have h4: "err (Handler stdlibs world_other_credentials event_tag_and_digest) = None"
    by code_simp
  have h5: "getAuthentication stdlibs world_ok = Inr aws_secret" by code_simp
  have h6: "getAuthentication stdlibs world_other_credentials
              = Inr \<lparr>Username = ''AWS'', Password = ''secret12''\<rparr>" by code_simp
  have h7: "physicalResourceID (Handler stdlibs world_ok event_tag_and_digest) = demo_target"
    by code_simp
  have h8: "attribute (Handler stdlibs world_ok event_tag_and_digest) ''Digest''
              = Some (IString python_digest)" by code_simp
  note t = create_is_idempotent [OF h1 refl refl refl h2 h2 h3 h4]
  from t h7 have t1: "physicalResourceID (Handler stdlibs world_other_credentials
                        event_tag_and_digest) = demo_target" by simp
  from t h8 have t2: "attribute (Handler stdlibs world_other_credentials event_tag_and_digest)
                        ''Digest'' = Some (IString python_digest)" by simp
  from h1 h5 h6 h2 h3 h4 h7 t1 h8 t2 show ?thesis by (intro conjI)
qed

section \<open>A repository name of one character\<close>

text \<open>
  Claim C9. A repository ARN that ends in \<^verbatim>\<open>:repository/\<close> and one more character, whatever
  comes before, is not matched by the pattern, because the name group asks for a
  lower-case letter and at least one more character. \<^verbatim>\<open>validate\<close> therefore fails on
  every event with such an ARN, and when the image reference is accepted the failure
  is the invalid-ARN error that echoes the ARN. Whatever the pattern does match has a
  name that starts with a lower-case letter and goes on.
\<close>

theorem single_character_repository_name_rejected:
  assumes "ResourceProperties event ''RepositoryArn'' = Some (IString arn)"
      and "arn = pre @ '':repository/'' @ [c]"
  shows "ecrRepositoryArnPattern_FindStringSubmatch arn = []
         \<and> (\<exists>e. validate L event = Inl e)
         \<and> (\<forall>s. validate_source L event = Inr s \<longrightarrow>
                validate L event = Inl (InvalidRepositoryArn arn))
         \<and> (\<forall>w region account nm.
                ecrRepositoryArnPattern_FindStringSubmatch other = [w, region, account, nm] \<longrightarrow>
                  (\<exists>c rest. nm = c # rest \<and> is_lower c \<and> rest \<noteq> []))"
proof -
  have m: "ecrRepositoryArnPattern_FindStringSubmatch arn = []"
    unfolding assms(2) by (rule arn_single_char_no_match)
  have t: "\<And>tg dg. validate_target L event tg dg = Inl (InvalidRepositoryArn arn)"
    using assms(1) m by (rule validate_target_rejects)
  have "\<exists>e. validate L event = Inl e"
    by (cases "validate_source L event") (auto simp: validate_def t)
  moreover have "\<forall>s. validate_source L event = Inr s \<longrightarrow>
                   validate L event = Inl (InvalidRepositoryArn arn)"
    by (auto simp: validate_def t)
  moreover have "\<forall>w region account nm.
                ecrRepositoryArnPattern_FindStringSubmatch other = [w, region, account, nm] \<longrightarrow>
                  (\<exists>c rest. nm = c # rest \<and> is_lower c \<and> rest \<noteq> [])"
    using arn_match_groups [of other] by blast
  ultimately show ?thesis using m by simp
qed

theorem single_character_repository_name_rejected_witness:
  "ResourceProperties event_short_name_arn ''RepositoryArn''
     = Some (IString ''arn:aws:ecr:eu-central-1:444093529715:repository/a'')
   \<and> validate_source stdlibs event_short_name_arn
     = Inr (NTag ''index.docker.io'' ''python'' ''3.9'', ''3.9'', [], ''docker.io/library/python'')
   \<and> validate stdlibs event_short_name_arn
     = Inl (InvalidRepositoryArn ''arn:aws:ecr:eu-central-1:444093529715:repository/a'')
   \<and> Error (InvalidRepositoryArn ''arn:aws:ecr:eu-central-1:444093529715:repository/a'')
     = ''Invalid AWS ECR repository ARN: arn:aws:ecr:eu-central-1:444093529715:repository/a''
   \<and> ecrRepositoryArnPattern_FindStringSubmatch
       ''arn:aws:ecr:eu-central-1:444093529715:repository/ab''
     = [''arn:aws:ecr:eu-central-1:444093529715:repository/ab'', ''eu-central-1'',
        ''444093529715'', ''ab'']
   \<and> is_lower CHR ''a''"
proof -
  have h1: "ResourceProperties event_short_name_arn ''RepositoryArn''
              = Some (IString ''arn:aws:ecr:eu-central-1:444093529715:repository/a'')"
    by code_simp
  have h2: "''arn:aws:ecr:eu-central-1:444093529715:repository/a''
              = ''arn:aws:ecr:eu-central-1:444093529715'' @ '':repository/'' @ [CHR ''a'']"
    by simp
  have h3: "validate_source stdlibs event_short_name_arn
              = Inr (NTag ''index.docker.io'' ''python'' ''3.9'', ''3.9'', [],
                     ''docker.io/library/python'')"
    by code_simp
  have h4: "ecrRepositoryArnPattern_FindStringSubmatch
       ''arn:aws:ecr:eu-central-1:444093529715:repository/ab''
     = [''arn:aws:ecr:eu-central-1:444093529715:repository/ab'', ''eu-central-1'',
        ''444093529715'', ''ab'']"
    by code_simp
  note t = single_character_repository_name_rejected
             [OF h1 h2, of stdlibs "''arn:aws:ecr:eu-central-1:444093529715:repository/ab''"]
  from t h3 have t1: "validate stdlibs event_short_name_arn
     = Inl (InvalidRepositoryArn ''arn:aws:ecr:eu-central-1:444093529715:repository/a'')"
    by blast
  from t h4 have "\<exists>c rest. ''ab'' = c # rest \<and> is_lower c \<and> rest \<noteq> []" by blast
  then have t2: "is_lower CHR ''a''" by auto
  have t3: "Error (InvalidRepositoryArn ''arn:aws:ecr:eu-central-1:444093529715:repository/a'')
     = ''Invalid AWS ECR repository ARN: arn:aws:ecr:eu-central-1:444093529715:repository/a''"
    by simp
  from h1 h3 t1 t3 h4 t2 show ?thesis by (intro conjI)
qed

section \<open>A Platform property that is not a string\<close>

text \<open>
  Claim C10. When the \<^verbatim>\<open>Platform\<close> property is present and is not a string, \<^verbatim>\<open>validate\<close>
  does what it does without the property: it never returns the platform format error,
  and the properties it returns have the default platform, linux/amd64.
\<close>

theorem non_string_platform_is_default:
  assumes "ResourceProperties event ''Platform'' = Some v" and "\<forall>s. v \<noteq> IString s"
  shows "validate L event
           = validate L (event\<lparr>ResourceProperties := (ResourceProperties event)(''Platform'' := None)\<rparr>)
         \<and> (\<forall>m. validate L event \<noteq> Inl (InvalidPlatformFormat m))
         \<and> (\<forall>p. validate L event = Inr p \<longrightarrow> Platform p = Some default_platform)
         \<and> OS default_platform = ''linux'' \<and> Architecture default_platform = ''amd64''"
proof -
  let ?absent = "event\<lparr>ResourceProperties := (ResourceProperties event)(''Platform'' := None)\<rparr>"
  have pf: "validate_platform L event = Inr (Some default_platform)"
    using assms by (rule validate_platform_non_string)
  have pf': "validate_platform L ?absent = Inr (Some default_platform)"
    by (rule validate_platform_absent) simp
  have src: "validate_source L ?absent = validate_source L event"
    by (rule validate_source_cong) simp
  have tgt: "\<And>tg dg. validate_target L ?absent tg dg = validate_target L event tg dg"
    by (rule validate_target_cong) simp
  have same: "validate L event = validate L ?absent"
    unfolding validate_def src tgt pf pf' ..
  have noerr: "\<forall>m. validate L event \<noteq> Inl (InvalidPlatformFormat m)"
    using validate_source_no_platform_error [of L event]
          validate_target_no_platform_error [of L event]
    by (auto simp: validate_def pf split: sum.splits prod.splits)
  have dflt: "\<forall>p. validate L event = Inr p \<longrightarrow> Platform p = Some default_platform"
    by (auto simp: validate_def pf split: sum.splits prod.splits)
  from same noerr dflt show ?thesis by (simp add: default_platform_def)
qed

theorem non_string_platform_is_default_witness:
  "ResourceProperties (event_platform (INumber 5)) ''Platform'' = Some (INumber 5)
   \<and> (\<forall>s. INumber 5 \<noteq> IString s)
   \<and> (\<exists>p. validate stdlibs (event_platform (INumber 5)) = Inr p
            \<and> Platform p = Some default_platform)
   \<and> validate stdlibs (event_platform (INumber 5))
       = validate stdlibs ((event_platform (INumber 5))
           \<lparr>ResourceProperties :=
              (ResourceProperties (event_platform (INumber 5)))(''Platform'' := None)\<rparr>)
   \<and> ResourceProperties (event_platform (IList [IString ''linux/arm64''])) ''Platform''
       = Some (IList [IString ''linux/arm64''])
   \<and> (\<forall>s. IList [IString ''linux/arm64''] \<noteq> IString s)
   \<and> (\<exists>p. validate stdlibs (event_platform (IList [IString ''linux/arm64''])) = Inr p
            \<and> Platform p = Some default_platform)"
proof -
  have a1: "ResourceProperties (event_platform (INumber 5)) ''Platform'' = Some (INumber 5)"
    by code_simp
  have a2: "\<forall>s. INumber 5 \<noteq> IString s" by simp
  obtain pa where a3: "validate stdlibs (event_platform (INumber 5)) = Inr pa"
    by (cases "validate stdlibs (event_platform (INumber 5))") (simp_all, code_simp)
  note a = non_string_platform_is_default [OF a1 a2, of stdlibs]
  from a a3 have a4: "Platform pa = Some default_platform" by blast
  have b1: "ResourceProperties (event_platform (IList [IString ''linux/arm64''])) ''Platform''
              = Some (IList [IString ''linux/arm64''])"
    by code_simp
  have b2: "\<forall>s. IList [IString ''linux/arm64''] \<noteq> IString s" by simp
  obtain pb where
    b3: "validate stdlibs (event_platform (IList [IString ''linux/arm64''])) = Inr pb"
    by (cases "validate stdlibs (event_platform (IList [IString ''linux/arm64'']))")
       (simp_all, code_simp)
  note b = non_string_platform_is_default [OF b1 b2, of stdlibs]
  from b b3 have b4: "Platform pb = Some default_platform" by blast
  from a1 a2 a3 a4 a [THEN conjunct1] b1 b2 b3 b4 show ?thesis by blast
qed

end
